theory Spec2Isabelle
  imports Complex_Main "HOL-Library.Sublist"
begin

section \<open>Strings\<close>

text \<open>
  A JavaScript string is a sequence of UTF-16 code units; \<open>length\<close> is the source's
  \<^verbatim>\<open>.length\<close>. The code units are natural numbers (92 is the backslash, 117 is \<open>u\<close>,
  120 is \<open>x\<close>, 47 is the slash). \<open>js\<close> turns an ASCII literal into such a string.
\<close>

type_synonym jsstring = "nat list"

definition js :: "string \<Rightarrow> jsstring" where
  "js s = map of_char s"

text \<open>The argument type \<^verbatim>\<open>string | null | undefined\<close> of the sanitizer.\<close>

datatype jsstr_arg = Undefined | Null | Str jsstring

section \<open>The string sanitizer (\<^verbatim>\<open>sanitizeString\<close>)\<close>

text \<open>
  The regular expression of the source is
  \<^verbatim>\<open>/\\(u[0-9a-fA-F]{0,3}|x[0-9a-fA-F]?)(?![0-9a-fA-F])/g\<close>.
  \<open>isHex\<close> is the character class \<^verbatim>\<open>[0-9a-fA-F]\<close> and \<open>notHexAhead\<close> the negative
  lookahead \<^verbatim>\<open>(?![0-9a-fA-F])\<close>, which also succeeds at the end of the string.
\<close>

definition isHex :: "nat \<Rightarrow> bool" where
  "isHex c \<longleftrightarrow> (48 \<le> c \<and> c \<le> 57) \<or> (97 \<le> c \<and> c \<le> 102) \<or> (65 \<le> c \<and> c \<le> 70)"

definition notHexAhead :: "jsstring \<Rightarrow> bool" where
  "notHexAhead s = (case s of [] \<Rightarrow> True | c # _ \<Rightarrow> \<not> isHex c)"

text \<open>
  A greedy quantifier \<^verbatim>\<open>[0-9a-fA-F]{0,k}\<close> first takes as many hex digits as it can, at
  most \<open>k\<close> (\<open>hexRun\<close>); when the lookahead after it fails the matcher backtracks and
  retries with one digit less, down to none (\<open>backtrack\<close>).
\<close>

fun hexRun :: "nat \<Rightarrow> jsstring \<Rightarrow> nat" where
  "hexRun 0 s = 0"
| "hexRun (Suc k) [] = 0"
| "hexRun (Suc k) (c # cs) = (if isHex c then Suc (hexRun k cs) else 0)"

fun backtrack :: "nat \<Rightarrow> jsstring \<Rightarrow> nat option" where
  "backtrack 0 s = (if notHexAhead s then Some 0 else None)"
| "backtrack (Suc n) s =
     (if notHexAhead (drop (Suc n) s) then Some (Suc n) else backtrack n s)"

definition hexDigitsThenStop :: "nat \<Rightarrow> jsstring \<Rightarrow> nat option" where
  "hexDigitsThenStop k s = backtrack (hexRun k s) s"

text \<open>
  The whole expression tried at the start of \<open>s\<close>: the length of the match, if there is
  one. The first alternative (\<open>u\<close> and up to three digits) is tried before the second
  (\<open>x\<close> and at most one digit).
\<close>

definition problematicEscapeAt :: "jsstring \<Rightarrow> nat option" where
  "problematicEscapeAt s =
     (case s of
        c # d # r \<Rightarrow>
          if c = 92 then
            (case (if d = 117 then hexDigitsThenStop 3 r else None) of
               Some n \<Rightarrow> Some (n + 2)
             | None \<Rightarrow>
                 (case (if d = 120 then hexDigitsThenStop 1 r else None) of
                    Some n \<Rightarrow> Some (n + 2)
                  | None \<Rightarrow> None))
          else None
      | _ \<Rightarrow> None)"

text \<open>
  The replacer \<^verbatim>\<open>(match) => match.replace("\\", "\\\\")\<close>: a string pattern replaces its
  first occurrence only, here the first backslash by two.
\<close>

fun replaceFirstBackslash :: "jsstring \<Rightarrow> jsstring" where
  "replaceFirstBackslash [] = []"
| "replaceFirstBackslash (c # cs) =
     (if c = 92 then 92 # 92 # cs else c # replaceFirstBackslash cs)"

text \<open>
  \<^verbatim>\<open>str.replace(regex, replacer)\<close> with the global flag: the string is scanned from the
  left; where the expression matches, the match is replaced and the scan goes on behind
  it; elsewhere the code unit is copied.
\<close>

function replaceEscapes :: "jsstring \<Rightarrow> jsstring" where
  "replaceEscapes s =
     (case s of
        [] \<Rightarrow> []
      | c # cs \<Rightarrow>
          (case problematicEscapeAt s of
             None \<Rightarrow> c # replaceEscapes cs
           | Some n \<Rightarrow> replaceFirstBackslash (take n s) @ replaceEscapes (drop n s)))"
  by pat_completeness auto
termination
  by (relation "measure length")
     (auto simp: problematicEscapeAt_def split: list.splits if_splits option.splits)

declare replaceEscapes.simps [simp del]

text \<open>
  \<open>sanitizeString\<close>: a falsy argument (\<^verbatim>\<open>null\<close>, \<^verbatim>\<open>undefined\<close>, the empty string) is
  returned as it is. The calls of \<^verbatim>\<open>test\<close> and \<^verbatim>\<open>exec\<close> before the replacement only
  write to the console and reset \<^verbatim>\<open>lastIndex\<close>. No operation inside the \<^verbatim>\<open>try\<close> block
  raises on a string, so the \<^verbatim>\<open>catch\<close> branch (double every backslash) is never entered
  and has no branch here.
\<close>

definition sanitizeString :: "jsstr_arg \<Rightarrow> jsstr_arg" where
  "sanitizeString str =
     (case str of
        Str s \<Rightarrow> if s = [] then str else Str (replaceEscapes s)
      | _ \<Rightarrow> str)"

subsection \<open>The specification's words for the sanitizer\<close>

text \<open>
  A truncated escape sequence at the start of \<open>s\<close>: a backslash, then \<open>u\<close> and fewer than
  four hex digits, or \<open>x\<close> and fewer than two, not followed by another hex digit (the run
  of hex digits is taken whole).
\<close>

definition truncatedEscape :: "jsstring \<Rightarrow> bool" where
  "truncatedEscape s =
     (case s of
        c # d # r \<Rightarrow>
          c = 92 \<and> ((d = 117 \<and> length (takeWhile isHex r) < 4)
                  \<or> (d = 120 \<and> length (takeWhile isHex r) < 2))
      | _ \<Rightarrow> False)"



text \<open>The string with the backslash of every truncated escape sequence doubled.\<close>

fun doubled :: "jsstring \<Rightarrow> jsstring" where
  "doubled [] = []"
| "doubled (c # cs) =
     (if truncatedEscape (c # cs) then 92 # 92 # doubled cs else c # doubled cs)"

section \<open>The page transform of \<^verbatim>\<open>importLinksFromBitly\<close>\<close>

text \<open>
  The exceptions the function's own code can raise: a \<^verbatim>\<open>TypeError\<close> (a property read
  or a method call on \<^verbatim>\<open>undefined\<close>) and the \<^verbatim>\<open>RangeError\<close> of
  \<^verbatim>\<open>toISOString\<close> on an invalid date.
\<close>

datatype js_error = TypeError | RangeError

text \<open>
  What the function uses and this file does not define: the platform's URL parser
  (\<^verbatim>\<open>new URL(s)\<close>, \<open>None\<close> where it throws) and date conversion
  (\<^verbatim>\<open>new Date(s).toISOString()\<close>, \<open>None\<close> where the date is invalid), and two imports
  from \<^verbatim>\<open>@dub/utils\<close>. They are parameters of the model.
\<close>

record URL =
  hostname :: jsstring
  pathname :: jsstring

record platform =
  parseURL :: "jsstring \<Rightarrow> URL option"
  dateToISOString :: "jsstring \<Rightarrow> jsstring option"
  linkConstructorSimple :: "jsstring \<Rightarrow> jsstring option \<Rightarrow> jsstring"
  APP_DOMAIN_WITH_NGROK :: jsstring

text \<open>
  The argument object of \<^verbatim>\<open>importLinksFromBitly\<close>. \<open>None\<close> is \<^verbatim>\<open>undefined\<close> (or
  \<^verbatim>\<open>null\<close> for \<open>searchAfter\<close>); \<open>tagsToId\<close> is a \<^verbatim>\<open>Record<string, string>\<close>, read by
  key. The count is a JavaScript number holding an integer.
\<close>

record import_args =
  workspaceId :: jsstring
  userId :: jsstring
  bitlyGroup :: jsstring
  domains :: "jsstring list"
  folderId :: "jsstring option"
  tagsToId :: "(jsstring \<times> jsstring) list option"
  bitlyApiKey :: jsstring
  searchAfter :: "jsstring option"
  count :: int

text \<open>
  One element of \<^verbatim>\<open>links\<close> in the provider's response, with the fields the callback
  destructures: \<^verbatim>\<open>id\<close>, \<^verbatim>\<open>long_url\<close>, \<^verbatim>\<open>title\<close>, \<^verbatim>\<open>archived\<close>, \<^verbatim>\<open>created_at\<close>,
  \<^verbatim>\<open>custom_bitlinks\<close>, \<^verbatim>\<open>tags\<close>. \<open>None\<close> is a missing field.
\<close>

record bitlink =
  link_id :: "jsstring option"
  long_url :: "jsstring option"
  link_title :: jsstr_arg
  link_archived :: bool
  created_at :: "jsstring option"
  custom_bitlinks :: "jsstring list option"
  tags :: "jsstring list option"

text \<open>
  The object \<^verbatim>\<open>linkDetails\<close>. The key is \<^verbatim>\<open>undefined\<close> when the id has no slash; a tag
  without an entry in \<open>tagsToId\<close> gives \<^verbatim>\<open>undefined\<close>.
\<close>

record normalized_link =
  projectId :: jsstring
  l_userId :: jsstring
  domain :: jsstring
  key :: "jsstring option"
  url :: jsstring
  shortLink :: jsstring
  title :: jsstr_arg
  archived :: bool
  createdAt :: jsstring
  tagIds :: "jsstring option list"
  l_folderId :: "jsstring option"

text \<open>
  The ways the callback of \<^verbatim>\<open>flatMap\<close> returns: the three early returns of an empty
  array, and the array of the primary link and its custom bitlinks.
\<close>

datatype branch =
    SkipMissing
  | SkipForeignDomain
  | SkipEmptyUrl
  | Emit "normalized_link list"

fun entries :: "branch \<Rightarrow> normalized_link list" where
  "entries (Emit ls) = ls"
| "entries _ = []"

text \<open>\<^verbatim>\<open>s.split(sep)\<close> for a separator of one code unit.\<close>

fun splitString :: "nat \<Rightarrow> jsstring \<Rightarrow> jsstring list" where
  "splitString sep [] = [[]]"
| "splitString sep (c # cs) =
     (if c = sep then [] # splitString sep cs
      else (case splitString sep cs of
              [] \<Rightarrow> [[c]]
            | x # xs \<Rightarrow> (c # x) # xs))"

text \<open>Truthiness of an optional string: \<^verbatim>\<open>undefined\<close> and the empty string are falsy.\<close>

definition truthy :: "jsstring option \<Rightarrow> bool" where
  "truthy v = (case v of None \<Rightarrow> False | Some s \<Rightarrow> s \<noteq> [])"

text \<open>\<^verbatim>\<open>sanitizeString(url) || ""\<close>\<close>

definition sanitizedUrlOf :: "jsstring \<Rightarrow> jsstring" where
  "sanitizedUrlOf u = (case sanitizeString (Str u) of Str t \<Rightarrow> t | _ \<Rightarrow> [])"

text \<open>
  \<^verbatim>\<open>new Date(created_at).toISOString()\<close>: the date of \<^verbatim>\<open>undefined\<close> is invalid, and
  \<^verbatim>\<open>toISOString\<close> raises a \<^verbatim>\<open>RangeError\<close> on an invalid date.
\<close>

definition toISOString :: "platform \<Rightarrow> jsstring option \<Rightarrow> js_error + jsstring" where
  "toISOString P created =
     (case created of
        None \<Rightarrow> Inl RangeError
      | Some d \<Rightarrow> (case dateToISOString P d of None \<Rightarrow> Inl RangeError | Some t \<Rightarrow> Inr t))"

text \<open>\<^verbatim>\<open>tagsToId ? tags.map((tag) => tagsToId[tag]) : []\<close>\<close>

definition tagIdsOf ::
  "(jsstring \<times> jsstring) list option \<Rightarrow> jsstring list option \<Rightarrow> js_error + jsstring option list"
where
  "tagIdsOf mapping ts =
     (case mapping of
        None \<Rightarrow> Inr []
      | Some m \<Rightarrow> (case ts of None \<Rightarrow> Inl TypeError | Some names \<Rightarrow> Inr (map (map_of m) names)))"

text \<open>The callback of \<^verbatim>\<open>custom_bitlinks?.filter\<close>: a URL that does not parse is dropped.\<close>

definition customBitlinkKept :: "platform \<Rightarrow> jsstring list \<Rightarrow> jsstring \<Rightarrow> bool" where
  "customBitlinkKept P ds customBitlink =
     (case parseURL P customBitlink of
        None \<Rightarrow> False
      | Some u \<Rightarrow> hostname u \<in> set ds)"

text \<open>The callback of \<^verbatim>\<open>.map\<close>: \<open>None\<close> is the \<^verbatim>\<open>null\<close> of its \<^verbatim>\<open>catch\<close> branch.\<close>

definition customBitlinkLink ::
  "platform \<Rightarrow> normalized_link \<Rightarrow> jsstring \<Rightarrow> normalized_link option"
where
  "customBitlinkLink P linkDetails customBitlink =
     (case parseURL P customBitlink of
        None \<Rightarrow> None
      | Some u \<Rightarrow>
          (let customDomain = hostname u;
               customKey = drop 1 (pathname u)
           in Some (linkDetails
                \<lparr> domain := customDomain,
                  key := Some customKey,
                  shortLink := linkConstructorSimple P customDomain (Some customKey) \<rparr>)))"

text \<open>\<^verbatim>\<open>custom_bitlinks?.filter(...).map(...).filter(Boolean) ?? []\<close>\<close>

definition customBitlinkLinks ::
  "platform \<Rightarrow> jsstring list \<Rightarrow> normalized_link \<Rightarrow> jsstring list option \<Rightarrow> normalized_link list"
where
  "customBitlinkLinks P ds linkDetails cbs =
     (case cbs of
        None \<Rightarrow> []
      | Some cs \<Rightarrow>
          List.map_filter (customBitlinkLink P linkDetails) (filter (customBitlinkKept P ds) cs))"

text \<open>The callback of \<^verbatim>\<open>links.flatMap\<close>, in the order of the source.\<close>

definition transformLink :: "platform \<Rightarrow> import_args \<Rightarrow> bitlink \<Rightarrow> js_error + branch" where
  "transformLink P a l =
     (if \<not> truthy (link_id l) \<or> \<not> truthy (long_url l) then Inr SkipMissing
      else
        (let parts = splitString 47 (the (link_id l));
             domain' = hd parts;
             key' = (if 1 < length parts then Some (parts ! 1) else None)
         in if domain' \<notin> set (domains a) then Inr SkipForeignDomain
            else
              (let sanitizedUrl = sanitizedUrlOf (the (long_url l))
               in if sanitizedUrl = [] then Inr SkipEmptyUrl
                  else
                    (case toISOString P (created_at l) of
                       Inl e \<Rightarrow> Inl e
                     | Inr isoDate \<Rightarrow>
                         (case tagIdsOf (tagsToId a) (tags l) of
                            Inl e \<Rightarrow> Inl e
                          | Inr tids \<Rightarrow>
                              (let linkDetails =
                                     \<lparr> projectId = workspaceId a,
                                       l_userId = userId a,
                                       domain = domain',
                                       key = key',
                                       url = sanitizedUrl,
                                       shortLink = linkConstructorSimple P domain' key',
                                       title = sanitizeString (link_title l),
                                       archived = link_archived l,
                                       createdAt = isoDate,
                                       tagIds = tids,
                                       l_folderId = folderId a \<rparr>
                               in Inr (Emit (linkDetails #
                                     customBitlinkLinks P (domains a) linkDetails
                                       (custom_bitlinks l)))))))))"

text \<open>\<^verbatim>\<open>links.flatMap(callback)\<close>: an exception in the callback ends the whole call.\<close>

fun flatMapLinks :: "platform \<Rightarrow> import_args \<Rightarrow> bitlink list \<Rightarrow> js_error + normalized_link list" where
  "flatMapLinks P a [] = Inr []"
| "flatMapLinks P a (l # ls) =
     (case transformLink P a l of
        Inl e \<Rightarrow> Inl e
      | Inr b \<Rightarrow>
          (case flatMapLinks P a ls of
             Inl e \<Rightarrow> Inl e
           | Inr rest \<Rightarrow> Inr (entries b @ rest)))"

section \<open>One invocation of \<^verbatim>\<open>importLinksFromBitly\<close>\<close>

text \<open>
  What the outside world answers during one invocation: the body of the provider's
  response (\<^verbatim>\<open>links\<close> and \<^verbatim>\<open>pagination.search_after\<close>), the \<^verbatim>\<open>shortLink\<close> column
  of the link table, and the row that \<^verbatim>\<open>prisma.project.findUnique\<close> returns for the
  workspace (\<open>None\<close> is \<^verbatim>\<open>null\<close>): its name and slug, the e-mail addresses of its
  users with the role owner (\<open>None\<close> is a \<^verbatim>\<open>null\<close> address) and up to five recent
  links.
\<close>

record page =
  links :: "bitlink list"
  search_after :: jsstring

record recent_link =
  r_domain :: jsstring
  r_key :: jsstring
  r_createdAt :: jsstring

record workspace =
  ws_name :: jsstring
  ws_slug :: jsstring
  ws_users :: "jsstring option list"
  ws_links :: "recent_link list"

record env =
  bitlyResponse :: page
  linkTable :: "jsstring list"
  workspaceRow :: "workspace option"

text \<open>The body of the message given to \<^verbatim>\<open>qstash.publishJSON\<close>, field by field.\<close>

record continuation =
  c_workspaceId :: jsstring
  c_userId :: jsstring
  c_bitlyGroup :: jsstring
  c_domains :: "jsstring list"
  c_folderId :: "jsstring option"
  c_importTags :: bool
  c_searchAfter :: jsstring
  c_count :: int

text \<open>The argument of \<^verbatim>\<open>sendEmail\<close>, with the properties of the template.\<close>

record email =
  e_subject :: jsstring
  e_email :: jsstring
  e_provider :: jsstring
  e_count :: int
  e_links :: "recent_link list"
  e_domains :: "jsstring list"
  e_workspaceName :: jsstring
  e_workspaceSlug :: jsstring

text \<open>
  The calls the invocation makes to its collaborators, in the order it makes them, each
  with its arguments: the request to the provider (URL and \<^verbatim>\<open>Authorization\<close> header), the
  lookup of existing links, the bulk insert, the pause in milliseconds, the lookup of the
  workspace, the deletion of a key of the key-value store, the deletion of the workspace's
  tags that have no link, the e-mail, and the message to the queue. The calls are taken to
  succeed: a rejected call ends the invocation where it stands, and what the collaborators
  do with a call is theirs.
\<close>

datatype effect =
    Fetch jsstring jsstring
  | FindManyLinks "jsstring list"
  | BulkCreateLinks "normalized_link list"
  | Delay nat
  | FindUniqueProject jsstring "jsstring list"
  | RedisDel jsstring
  | DeleteTagsWithoutLinks jsstring
  | SendEmail email
  | PublishJSON jsstring continuation

text \<open>The invocation returns the count, or the answer of the queue to the publication.\<close>

datatype outcome = Returned int | Published

text \<open>
  \<^verbatim>\<open>prisma.link.findMany({ where: { shortLink: { in: wanted } } })\<close>: the rows of the
  table whose short link is one of those asked for, compared code unit by code unit.
\<close>

definition findMany :: "jsstring list \<Rightarrow> jsstring list \<Rightarrow> jsstring list" where
  "findMany table wanted = filter (\<lambda>s. s \<in> set wanted) table"

text \<open>
  \<^verbatim>\<open>importedLinks.filter((link) => !alreadyCreatedLinks.some((l) => l.shortLink === link.shortLink))\<close>
\<close>

definition linksToCreate :: "jsstring list \<Rightarrow> normalized_link list \<Rightarrow> normalized_link list" where
  "linksToCreate alreadyCreatedLinks importedLinks =
     filter (\<lambda>link. \<not> list_ex (\<lambda>l. l = shortLink link) alreadyCreatedLinks) importedLinks"

definition fetchUrl :: "import_args \<Rightarrow> jsstring" where
  "fetchUrl a =
     js ''https://api-ssl.bitly.com/v4/groups/'' @ bitlyGroup a @ js ''/bitlinks?size=100''
       @ (if truthy (searchAfter a) then js ''&search_after='' @ the (searchAfter a) else [])"

text \<open>
  \<^verbatim>\<open>workspace?.users[0].user.email ?? ""\<close>: no workspace gives the empty address; a
  workspace without an owner raises a \<^verbatim>\<open>TypeError\<close>, since \<^verbatim>\<open>users[0]\<close> is
  \<^verbatim>\<open>undefined\<close>.
\<close>

definition ownerEmailOf :: "workspace option \<Rightarrow> js_error + jsstring" where
  "ownerEmailOf w =
     (case w of
        None \<Rightarrow> Inr []
      | Some ws \<Rightarrow>
          (case ws_users ws of
             [] \<Rightarrow> Inl TypeError
           | u # _ \<Rightarrow> Inr (case u of None \<Rightarrow> [] | Some e \<Rightarrow> e)))"

text \<open>The four calls inside \<^verbatim>\<open>Promise.all\<close>, in the order they are started.\<close>

definition finalize :: "import_args \<Rightarrow> workspace option \<Rightarrow> jsstring \<Rightarrow> int \<Rightarrow> effect list" where
  "finalize a w ownerEmail n =
     [ RedisDel (js ''import:bitly:'' @ workspaceId a),
       RedisDel (js ''import:bitly:'' @ workspaceId a @ js '':tags''),
       DeleteTagsWithoutLinks (workspaceId a),
       SendEmail
         \<lparr> e_subject = js ''Your Bitly links have been imported!'',
           e_email = ownerEmail,
           e_provider = js ''Bitly'',
           e_count = n,
           e_links = (case w of None \<Rightarrow> [] | Some ws \<Rightarrow> ws_links ws),
           e_domains = domains a,
           e_workspaceName = (case w of None \<Rightarrow> [] | Some ws \<Rightarrow> ws_name ws),
           e_workspaceSlug = (case w of None \<Rightarrow> [] | Some ws \<Rightarrow> ws_slug ws) \<rparr> ]"

text \<open>The \<^verbatim>\<open>body\<close> of the published message.\<close>

definition continuationOf :: "import_args \<Rightarrow> jsstring \<Rightarrow> int \<Rightarrow> continuation" where
  "continuationOf a nextSearchAfter n =
     \<lparr> c_workspaceId = workspaceId a,
       c_userId = userId a,
       c_bitlyGroup = bitlyGroup a,
       c_domains = domains a,
       c_folderId = folderId a,
       c_importTags = (case tagsToId a of None \<Rightarrow> False | Some _ \<Rightarrow> True),
       c_searchAfter = nextSearchAfter,
       c_count = n \<rparr>"

text \<open>
  The invocation: the calls made, and the error raised or the outcome. \<open>n\<close> is the
  variable \<^verbatim>\<open>count\<close> after \<^verbatim>\<open>count += importedLinks.length\<close>.
\<close>

definition importLinksFromBitly ::
  "platform \<Rightarrow> env \<Rightarrow> import_args \<Rightarrow> effect list \<times> (js_error + outcome)"
where
  "importLinksFromBitly P E a =
     (let request = Fetch (fetchUrl a) (js ''Bearer '' @ bitlyApiKey a);
          data = bitlyResponse E;
          nextSearchAfter = search_after data
      in case flatMapLinks P a (links data) of
           Inl e \<Rightarrow> ([request], Inl e)
         | Inr importedLinks \<Rightarrow>
             (let wanted = map shortLink importedLinks;
                  alreadyCreatedLinks = findMany (linkTable E) wanted;
                  toCreate = linksToCreate alreadyCreatedLinks importedLinks;
                  n = count a + int (length importedLinks);
                  calls = [request, FindManyLinks wanted, BulkCreateLinks toCreate, Delay 500]
              in if nextSearchAfter = [] then
                   (let w = workspaceRow E;
                        lookup = FindUniqueProject (workspaceId a) (domains a)
                    in case ownerEmailOf w of
                         Inl e \<Rightarrow> (calls @ [lookup], Inl e)
                       | Inr ownerEmail \<Rightarrow>
                           (calls @ lookup # finalize a w ownerEmail n, Inr (Returned n)))
                 else
                   (calls @
                      [PublishJSON (APP_DOMAIN_WITH_NGROK P @ js ''/api/cron/import/bitly'')
                         (continuationOf a nextSearchAfter n)],
                    Inr Published)))"

subsection \<open>Reading the calls of an invocation\<close>

fun bulkCreated :: "effect list \<Rightarrow> normalized_link list list" where
  "bulkCreated [] = []"
| "bulkCreated (BulkCreateLinks ls # es) = ls # bulkCreated es"
| "bulkCreated (_ # es) = bulkCreated es"

fun redisDeleted :: "effect list \<Rightarrow> jsstring list" where
  "redisDeleted [] = []"
| "redisDeleted (RedisDel k # es) = k # redisDeleted es"
| "redisDeleted (_ # es) = redisDeleted es"

fun tagCleanups :: "effect list \<Rightarrow> jsstring list" where
  "tagCleanups [] = []"
| "tagCleanups (DeleteTagsWithoutLinks w # es) = w # tagCleanups es"
| "tagCleanups (_ # es) = tagCleanups es"

fun emailsSent :: "effect list \<Rightarrow> email list" where
  "emailsSent [] = []"
| "emailsSent (SendEmail m # es) = m # emailsSent es"
| "emailsSent (_ # es) = emailsSent es"

fun published :: "effect list \<Rightarrow> (jsstring \<times> continuation) list" where
  "published [] = []"
| "published (PublishJSON u b # es) = (u, b) # published es"
| "published (_ # es) = published es"

subsection \<open>A sample platform, request and page\<close>

text \<open>
  Concrete values to run the model on. The sample URL parser reads \<^verbatim>\<open>https://host/path\<close>
  as the platform does for a plain host and path, and rejects everything else; the sample
  date conversion knows one timestamp in the provider's format; the sample link
  constructor joins domain and key with a slash.
\<close>

definition samplePlatform :: platform where
  "samplePlatform =
     \<lparr> parseURL = (\<lambda>s.
         if take 8 s = js ''https://'' \<and> takeWhile (\<lambda>c. c \<noteq> 47) (drop 8 s) \<noteq> []
         then Some \<lparr> hostname = takeWhile (\<lambda>c. c \<noteq> 47) (drop 8 s),
                      pathname = (if dropWhile (\<lambda>c. c \<noteq> 47) (drop 8 s) = [] then [47]
                                  else dropWhile (\<lambda>c. c \<noteq> 47) (drop 8 s)) \<rparr>
         else None),
       dateToISOString = (\<lambda>s.
         if s = js ''2024-01-02T03:04:05+0000'' then Some (js ''2024-01-02T03:04:05.000Z'')
         else None),
       linkConstructorSimple = (\<lambda>d k.
         js ''https://'' @ d @ 47 # (case k of None \<Rightarrow> js ''undefined'' | Some t \<Rightarrow> t)),
       APP_DOMAIN_WITH_NGROK = js ''https://app.dub.co'' \<rparr>"

definition sampleArgs :: import_args where
  "sampleArgs =
     \<lparr> workspaceId = js ''ws_1'', userId = js ''user_1'', bitlyGroup = js ''Bg1'',
       domains = [js ''short.io''], folderId = None,
       tagsToId = Some [(js ''promo'', js ''tag_1'')],
       bitlyApiKey = js ''secret'', searchAfter = None, count = 10 \<rparr>"

definition otherArgs :: import_args where
  "otherArgs =
     sampleArgs \<lparr> tagsToId := Some [(js ''promo'', js ''tag_2'')], bitlyApiKey := js ''other'' \<rparr>"

definition sampleLink :: bitlink where
  "sampleLink =
     \<lparr> link_id = Some (js ''short.io/abc''), long_url = Some (js ''https://ex.com''),
       link_title = Null, link_archived = False,
       created_at = Some (js ''2024-01-02T03:04:05+0000''),
       custom_bitlinks =
         Some [js ''https://short.io/promo'', js ''https://other.io/x'', js ''not a url''],
       tags = Some [js ''promo'', js ''misc''] \<rparr>"

definition samplePrimary :: normalized_link where
  "samplePrimary =
     \<lparr> projectId = js ''ws_1'', l_userId = js ''user_1'', domain = js ''short.io'',
       key = Some (js ''abc''), url = js ''https://ex.com'',
       shortLink = js ''https://short.io/abc'', title = Null, archived = False,
       createdAt = js ''2024-01-02T03:04:05.000Z'',
       tagIds = [Some (js ''tag_1''), None], l_folderId = None \<rparr>"

definition sampleAlias :: normalized_link where
  "sampleAlias =
     samplePrimary \<lparr> domain := js ''short.io'', key := Some (js ''promo''),
                     shortLink := js ''https://short.io/promo'' \<rparr>"

definition sampleWorkspace :: workspace where
  "sampleWorkspace =
     \<lparr> ws_name = js ''Acme'', ws_slug = js ''acme'',
       ws_users = [Some (js ''owner@acme.com'')], ws_links = [] \<rparr>"

text \<open>
  The last page (empty cursor) and a page with more to come; the table already holds the
  short link of the sample link's custom bitlink.
\<close>

definition lastPageEnv :: env where
  "lastPageEnv =
     \<lparr> bitlyResponse = \<lparr> links = [sampleLink], search_after = [] \<rparr>,
       linkTable = [js ''https://short.io/promo'', js ''https://short.io/zzz''],
       workspaceRow = Some sampleWorkspace \<rparr>"

definition morePagesEnv :: env where
  "morePagesEnv =
     lastPageEnv \<lparr> bitlyResponse := \<lparr> links = [sampleLink], search_after = js ''xyz'' \<rparr> \<rparr>"

section \<open>The sale schemas (\<^verbatim>\<open>lib/zod/schemas/sales.ts\<close>)\<close>

text \<open>
  The values a schema parses. A number is a double: not-a-number, an infinity, or a finite
  value, kept as the rational it denotes. An object is its list of own properties; a
  property that is absent reads as \<^verbatim>\<open>undefined\<close>.
\<close>

datatype jsnumber = NaN | PosInfinity | NegInfinity | Finite rat

datatype json =
    JUndefined
  | JNull
  | JBool bool
  | JNumber jsnumber
  | JString jsstring
  | JArray "json list"
  | JObject "(jsstring \<times> json) list"

text \<open>
  A schema is its parser: \<open>None\<close> when parsing fails, the parsed value otherwise. The
  shape of an object schema lists its keys with their schemas. \<^verbatim>\<open>describe\<close> and
  \<^verbatim>\<open>openapi\<close> attach documentation and leave the parser as it is.
\<close>

type_synonym zod = "json \<Rightarrow> json option"
type_synonym shape = "(jsstring \<times> zod) list"

text \<open>The white space and line terminators that \<^verbatim>\<open>String.prototype.trim\<close> removes.\<close>

definition isWhiteSpace :: "nat \<Rightarrow> bool" where
  "isWhiteSpace c \<longleftrightarrow>
     c \<in> {9, 10, 11, 12, 13, 32, 160, 5760, 8232, 8233, 8239, 8287, 12288, 65279}
     \<or> (8192 \<le> c \<and> c \<le> 8202)"

definition trim :: "jsstring \<Rightarrow> jsstring" where
  "trim s = rev (dropWhile isWhiteSpace (rev (dropWhile isWhiteSpace s)))"

text \<open>
  \<^verbatim>\<open>z.string()\<close> with its checks, which run in the order they were added: \<^verbatim>\<open>trim\<close>
  replaces the value by the trimmed one, so the checks after it see the trimmed string.
\<close>

datatype string_check = Trim | MinLength nat | MaxLength nat

fun stringChecks :: "string_check list \<Rightarrow> jsstring \<Rightarrow> jsstring option" where
  "stringChecks [] s = Some s"
| "stringChecks (Trim # cs) s = stringChecks cs (trim s)"
| "stringChecks (MinLength n # cs) s = (if length s < n then None else stringChecks cs s)"
| "stringChecks (MaxLength n # cs) s = (if n < length s then None else stringChecks cs s)"

definition z_string :: "string_check list \<Rightarrow> zod" where
  "z_string checks v =
     (case v of JString s \<Rightarrow> map_option JString (stringChecks checks s) | _ \<Rightarrow> None)"

text \<open>
  \<^verbatim>\<open>z.number()\<close> refuses not-a-number; \<^verbatim>\<open>int()\<close> asks for \<^verbatim>\<open>Number.isInteger\<close> and
  \<^verbatim>\<open>positive()\<close> for a value above zero.
\<close>

datatype number_check = IsInt | Positive

fun numberCheck :: "number_check \<Rightarrow> jsnumber \<Rightarrow> bool" where
  "numberCheck IsInt (Finite r) = (of_int \<lfloor>r\<rfloor> = r)"
| "numberCheck IsInt _ = False"
| "numberCheck Positive (Finite r) = (0 < r)"
| "numberCheck Positive PosInfinity = True"
| "numberCheck Positive _ = False"

definition z_number :: "number_check list \<Rightarrow> zod" where
  "z_number checks v =
     (case v of
        JNumber n \<Rightarrow> if n \<noteq> NaN \<and> list_all (\<lambda>c. numberCheck c n) checks then Some v else None
      | _ \<Rightarrow> None)"

definition z_enum :: "jsstring list \<Rightarrow> zod" where
  "z_enum options v =
     (case v of JString s \<Rightarrow> if s \<in> set options then Some v else None | _ \<Rightarrow> None)"

definition z_literal :: "json \<Rightarrow> zod" where
  "z_literal expected v = (if v = expected then Some v else None)"

definition z_unknown :: zod where
  "z_unknown v = Some v"

text \<open>\<^verbatim>\<open>z.coerce.string()\<close> parses \<^verbatim>\<open>String(input)\<close>; the conversion is the platform's.\<close>

definition z_coerce_string :: "(json \<Rightarrow> jsstring) \<Rightarrow> zod" where
  "z_coerce_string toStr v = z_string [] (JString (toStr v))"

definition z_optional :: "zod \<Rightarrow> zod" where
  "z_optional inner v = (if v = JUndefined then Some JUndefined else inner v)"

definition z_nullable :: "zod \<Rightarrow> zod" where
  "z_nullable inner v = (if v = JNull then Some JNull else inner v)"

definition z_nullish :: "zod \<Rightarrow> zod" where
  "z_nullish inner = z_optional (z_nullable inner)"

text \<open>\<^verbatim>\<open>default(d)\<close> replaces \<^verbatim>\<open>undefined\<close> by \<open>d\<close> and then parses with the inner schema.\<close>

definition z_default :: "zod \<Rightarrow> json \<Rightarrow> zod" where
  "z_default inner d v = inner (if v = JUndefined then d else v)"

text \<open>\<^verbatim>\<open>z.record(inner)\<close>: an object whose every value parses with the inner schema.\<close>

fun recordValues :: "zod \<Rightarrow> (jsstring \<times> json) list \<Rightarrow> (jsstring \<times> json) list option" where
  "recordValues inner [] = Some []"
| "recordValues inner ((k, v) # kvs) =
     (case inner v of
        None \<Rightarrow> None
      | Some v' \<Rightarrow> map_option (\<lambda>out. (k, v') # out) (recordValues inner kvs))"

definition z_record :: "zod \<Rightarrow> zod" where
  "z_record inner v =
     (case v of JObject kvs \<Rightarrow> map_option JObject (recordValues inner kvs) | _ \<Rightarrow> None)"

text \<open>
  \<^verbatim>\<open>z.object(shape)\<close>: the input must be an object; every key of the shape is parsed by
  its own schema from the property of that name; keys outside the shape are stripped. A
  key is set in the result when its parsed value is not \<^verbatim>\<open>undefined\<close> or the input had
  the key.
\<close>

definition field :: "(jsstring \<times> json) list \<Rightarrow> jsstring \<Rightarrow> json" where
  "field kvs k = (case map_of kvs k of None \<Rightarrow> JUndefined | Some v \<Rightarrow> v)"

fun parseShape :: "shape \<Rightarrow> (jsstring \<times> json) list \<Rightarrow> (jsstring \<times> json) list option" where
  "parseShape [] kvs = Some []"
| "parseShape ((k, p) # rest) kvs =
     (case p (field kvs k) of
        None \<Rightarrow> None
      | Some v \<Rightarrow>
          (case parseShape rest kvs of
             None \<Rightarrow> None
           | Some out \<Rightarrow>
               Some (if v \<noteq> JUndefined \<or> k \<in> fst ` set kvs then (k, v) # out else out)))"

definition z_object :: "shape \<Rightarrow> zod" where
  "z_object sh v =
     (case v of JObject kvs \<Rightarrow> map_option JObject (parseShape sh kvs) | _ \<Rightarrow> None)"

text \<open>
  \<^verbatim>\<open>pick\<close> keeps the listed keys of a shape; \<^verbatim>\<open>merge\<close> is \<^verbatim>\<open>{ ...A, ...B }\<close> on the
  shapes: a key of both takes the schema of \<open>B\<close>.
\<close>

definition pick :: "jsstring list \<Rightarrow> shape \<Rightarrow> shape" where
  "pick ks sh = List.map_filter (\<lambda>k. map_option (Pair k) (map_of sh k)) ks"

definition merge :: "shape \<Rightarrow> shape \<Rightarrow> shape" where
  "merge A B =
     map (\<lambda>(k, p). (k, case map_of B k of None \<Rightarrow> p | Some q \<Rightarrow> q)) A
       @ filter (\<lambda>(k, q). k \<notin> fst ` set A) B"

definition trackSaleRequestShape :: shape where
  "trackSaleRequestShape =
     [ (js ''customerId'', z_string [Trim, MinLength 1, MaxLength 100]),
       (js ''amount'', z_number [IsInt, Positive]),
       (js ''paymentProcessor'', z_enum [js ''stripe'', js ''shopify'', js ''paddle'']),
       (js ''eventName'', z_default (z_optional (z_string [MaxLength 50])) (JString (js ''Purchase''))),
       (js ''invoiceId'', z_default (z_nullish (z_string [])) JNull),
       (js ''currency'', z_default (z_string []) (JString (js ''usd''))),
       (js ''metadata'', z_default (z_nullish (z_record z_unknown)) JNull) ]"

definition trackSaleRequestSchema :: zod where
  "trackSaleRequestSchema = z_object trackSaleRequestShape"

text \<open>
  \<^verbatim>\<open>saleEventResponseSchema\<close>. The schemas it imports from \<^verbatim>\<open>./links\<close>, \<^verbatim>\<open>./clicks\<close>,
  \<^verbatim>\<open>./customers\<close> and \<^verbatim>\<open>./deprecated\<close> are parameters, as is the platform's
  \<^verbatim>\<open>String\<close>. The merged schema \<^verbatim>\<open>commonDeprecatedEventFields\<close> is given by its
  shape: a plain \<^verbatim>\<open>z.object\<close>, which strips the keys it does not know.
\<close>

definition saleEventResponseShape :: "(json \<Rightarrow> jsstring) \<Rightarrow> zod \<Rightarrow> zod \<Rightarrow> zod \<Rightarrow> shape" where
  "saleEventResponseShape toStr linkEventSchema clickEventSchema customerSchema =
     [ (js ''event'', z_literal (JString (js ''sale''))),
       (js ''timestamp'', z_coerce_string toStr),
       (js ''eventId'', z_string []),
       (js ''eventName'', z_string []),
       (js ''link'', linkEventSchema),
       (js ''click'', clickEventSchema),
       (js ''customer'', customerSchema),
       (js ''sale'', z_object (pick [js ''amount'', js ''invoiceId'', js ''paymentProcessor'']
                                trackSaleRequestShape)),
       (js ''saleAmount'', z_number []),
       (js ''invoice_id'', z_string []),
       (js ''payment_processor'', z_string []) ]"

definition saleEventResponseSchema ::
  "(json \<Rightarrow> jsstring) \<Rightarrow> zod \<Rightarrow> zod \<Rightarrow> zod \<Rightarrow> shape \<Rightarrow> zod"
where
  "saleEventResponseSchema toStr linkEventSchema clickEventSchema customerSchema
       commonDeprecatedEventFields =
     z_object (merge (saleEventResponseShape toStr linkEventSchema clickEventSchema customerSchema)
                 commonDeprecatedEventFields)"

subsection \<open>Sample requests and responses\<close>

text \<open>
  A request body with the optional fields left out and a key the schema does not know; a
  response body whose deprecated fields differ from the fields of \<^verbatim>\<open>sale\<close>. The sample
  conversion to a string is the platform's on strings and on \<^verbatim>\<open>undefined\<close>.
\<close>

definition sampleTrackSale :: "(jsstring \<times> json) list" where
  "sampleTrackSale =
     [ (js ''customerId'', JString (js '' cus_1 '')),
       (js ''amount'', JNumber (Finite 500)),
       (js ''paymentProcessor'', JString (js ''stripe'')),
       (js ''plan'', JString (js ''pro'')) ]"

text \<open>
  Two more request bodies: one whose customer id is the letter \<open>a\<close> followed by a
  hundred spaces, and the sample request with a \<^verbatim>\<open>null\<close> currency.
\<close>

definition paddedTrackSale :: "(jsstring \<times> json) list" where
  "paddedTrackSale =
     [ (js ''customerId'', JString (97 # replicate 100 32)),
       (js ''amount'', JNumber (Finite 500)),
       (js ''paymentProcessor'', JString (js ''stripe'')) ]"

definition nullCurrencyTrackSale :: "(jsstring \<times> json) list" where
  "nullCurrencyTrackSale = (js ''currency'', JNull) # sampleTrackSale"

definition sampleString :: "json \<Rightarrow> jsstring" where
  "sampleString v = (case v of JString s \<Rightarrow> s | _ \<Rightarrow> js ''undefined'')"

definition mismatchedSaleEvent :: "(jsstring \<times> json) list" where
  "mismatchedSaleEvent =
     [ (js ''event'', JString (js ''sale'')),
       (js ''timestamp'', JString (js ''2024-01-02T03:04:05.000Z'')),
       (js ''eventId'', JString (js ''evt_1'')),
       (js ''eventName'', JString (js ''Purchase'')),
       (js ''link'', JNull),
       (js ''click'', JNull),
       (js ''customer'', JNull),
       (js ''sale'', JObject [ (js ''amount'', JNumber (Finite 500)),
                               (js ''invoiceId'', JString (js ''inv_1'')),
                               (js ''paymentProcessor'', JString (js ''stripe'')) ]),
       (js ''saleAmount'', JNumber (Finite 100)),
       (js ''invoice_id'', JString (js ''inv_2'')),
       (js ''payment_processor'', JString (js ''paypal'')) ]"

section \<open>Properties of the sanitizer\<close>

subsection \<open>The regular expression matches exactly the truncated escape sequences\<close>

lemma hexRun_eq: "hexRun k s = min k (length (takeWhile isHex s))"
  by (induction k s rule: hexRun.induct) auto

lemma notHexAhead_drop_takeWhile:
  "notHexAhead (drop (length (takeWhile isHex s)) s)"
  by (induction s) (auto simp: notHexAhead_def)

lemma hexAhead_before:
  "n < length (takeWhile isHex s) \<Longrightarrow> \<not> notHexAhead (drop n s)"
proof (induction s arbitrary: n)
  case Nil
  then show ?case by simp
next
  case (Cons c cs)
  then show ?case
    by (cases n) (auto simp: notHexAhead_def split: if_splits)
qed

lemma backtrack_short:
  "n < length (takeWhile isHex s) \<Longrightarrow> backtrack n s = None"
proof (induction n)
  case 0
  then show ?case using hexAhead_before [of 0 s] by simp
next
  case (Suc n)
  then show ?case using hexAhead_before [of "Suc n" s] by simp
qed

lemma backtrack_full:
  "backtrack (length (takeWhile isHex s)) s = Some (length (takeWhile isHex s))"
  using notHexAhead_drop_takeWhile [of s]
  by (cases "length (takeWhile isHex s)") auto

lemma hexDigitsThenStop_eq:
  "hexDigitsThenStop k s =
     (if length (takeWhile isHex s) \<le> k then Some (length (takeWhile isHex s)) else None)"
  by (auto simp: hexDigitsThenStop_def hexRun_eq min_def backtrack_full backtrack_short)

lemma problematicEscapeAt_eq:
  "problematicEscapeAt s =
     (if truncatedEscape s then Some (length (takeWhile isHex (drop 2 s)) + 2) else None)"
  by (auto simp: problematicEscapeAt_def truncatedEscape_def hexDigitsThenStop_eq
      split: list.splits)

lemma truncatedEscape_backslash: "truncatedEscape (c # cs) \<Longrightarrow> c = 92"
  by (auto simp: truncatedEscape_def split: list.splits)

lemma isHex_not_backslash: "isHex c \<Longrightarrow> c \<noteq> 92"
  by (auto simp: isHex_def)

lemma doubled_append_plain:
  "92 \<notin> set xs \<Longrightarrow> doubled (xs @ r) = xs @ doubled r"
  by (induction xs) (auto dest: truncatedEscape_backslash)

lemma takeWhile_isHex_plain: "92 \<notin> set (takeWhile isHex r)"
  by (induction r) (auto dest: isHex_not_backslash)

lemma doubled_at_escape:
  assumes "truncatedEscape s"
  shows "doubled s =
    replaceFirstBackslash (take (length (takeWhile isHex (drop 2 s)) + 2) s)
      @ doubled (drop (length (takeWhile isHex (drop 2 s)) + 2) s)"
proof -
  from assms obtain d r where s: "s = 92 # d # r" and d: "d = 117 \<or> d = 120"
    by (auto simp: truncatedEscape_def split: list.splits)
  have plain: "92 \<notin> set (d # takeWhile isHex r)"
    using d takeWhile_isHex_plain [of r] by auto
  have "doubled s = 92 # 92 # doubled ((d # takeWhile isHex r) @ dropWhile isHex r)"
    using assms s by simp
  also have "\<dots> = 92 # 92 # (d # takeWhile isHex r) @ doubled (dropWhile isHex r)"
    by (simp only: doubled_append_plain [OF plain])
  finally show ?thesis
    by (simp add: s dropWhile_eq_drop takeWhile_eq_take [symmetric])
qed

lemma replaceEscapes_step_match:
  "s \<noteq> [] \<Longrightarrow> problematicEscapeAt s = Some n \<Longrightarrow>
   replaceEscapes s = replaceFirstBackslash (take n s) @ replaceEscapes (drop n s)"
  by (subst replaceEscapes.simps) (auto split: list.splits)

lemma replaceEscapes_step_plain:
  "problematicEscapeAt (c # cs) = None \<Longrightarrow>
   replaceEscapes (c # cs) = c # replaceEscapes cs"
  by (subst replaceEscapes.simps) simp

lemma replaceEscapes_doubled: "replaceEscapes s = doubled s"
proof (induction s rule: replaceEscapes.induct)
  case (1 s)
  show ?case
  proof (cases s)
    case Nil
    then show ?thesis by (simp add: replaceEscapes.simps)
  next
    case (Cons c cs)
    show ?thesis
    proof (cases "truncatedEscape s")
      case True
      define n where "n = length (takeWhile isHex (drop 2 s)) + 2"
      have at: "problematicEscapeAt s = Some n"
        using True by (simp add: problematicEscapeAt_eq n_def)
      have "replaceEscapes s = replaceFirstBackslash (take n s) @ replaceEscapes (drop n s)"
        using Cons at by (intro replaceEscapes_step_match) simp_all
      also have "\<dots> = replaceFirstBackslash (take n s) @ doubled (drop n s)"
        using "1.IH"(2) [OF Cons at] by simp
      also have "\<dots> = doubled s"
        using doubled_at_escape [OF True] by (simp only: n_def)
      finally show ?thesis .
    next
      case False
      then have at: "problematicEscapeAt s = None"
        by (simp add: problematicEscapeAt_eq)
      have "replaceEscapes s = c # replaceEscapes cs"
        using at unfolding Cons by (rule replaceEscapes_step_plain)
      also have "\<dots> = c # doubled cs"
        using "1.IH"(1) [OF Cons at] by simp
      also have "\<dots> = doubled s"
        using False by (simp add: Cons)
      finally show ?thesis .
    qed
  qed
qed





lemma subseq_doubled: "subseq s (doubled s)"
  by (induction s) (auto dest: truncatedEscape_backslash)

lemma length_doubled: "length s \<le> length (doubled s)"
  by (induction s) auto

lemma doubled_nonempty: "s \<noteq> [] \<Longrightarrow> doubled s \<noteq> []"
  by (cases s) auto




lemma sanitizeString_Str: "sanitizeString (Str s) = Str (doubled s)"
  by (cases s) (simp_all add: sanitizeString_def replaceEscapes_doubled)

lemma sanitizedUrlOf_doubled: "sanitizedUrlOf s = doubled s"
  by (simp add: sanitizedUrlOf_def sanitizeString_Str)




lemma transformLink_not_SkipEmptyUrl: "transformLink P a l \<noteq> Inr SkipEmptyUrl"
proof (cases "truthy (long_url l)")
  case False
  then show ?thesis by (simp add: transformLink_def)
next
  case True
  then have "the (long_url l) \<noteq> []"
    by (auto simp: truthy_def split: option.splits)
  then have "sanitizedUrlOf (the (long_url l)) \<noteq> []"
    by (simp add: sanitizedUrlOf_doubled doubled_nonempty)
  then show ?thesis
    by (auto simp: transformLink_def Let_def split: sum.splits)
qed

text \<open>
  Claim C10. The early return for a URL that is empty after sanitization is never taken:
  a record that reaches it has a non-empty URL, and the sanitizer maps a non-empty string
  to a non-empty one: it only doubles backslashes, so the input is a subsequence of the
  result and no shorter. The empty string is returned unchanged by the guard for falsy
  arguments.
\<close>

theorem empty_url_branch_unreachable:
  "transformLink P a l \<noteq> Inr SkipEmptyUrl
   \<and> sanitizeString (Str []) = Str []
   \<and> (s \<noteq> [] \<longrightarrow>
        sanitizeString (Str s) = Str (doubled s) \<and> doubled s \<noteq> []
        \<and> subseq s (doubled s) \<and> length s \<le> length (doubled s)
        \<and> sanitizedUrlOf s \<noteq> [])"
  by (simp add: transformLink_not_SkipEmptyUrl sanitizeString_Str sanitizedUrlOf_doubled
      doubled_nonempty subseq_doubled length_doubled)

theorem empty_url_branch_unreachable_witness:
  "js ''https://ex.com'' \<noteq> []
   \<and> sanitizedUrlOf (js ''https://ex.com'') \<noteq> []
   \<and> transformLink samplePlatform sampleArgs sampleLink \<noteq> Inr SkipEmptyUrl"
  using empty_url_branch_unreachable [of samplePlatform sampleArgs sampleLink "js ''https://ex.com''"]
  by (simp add: js_def)


section \<open>Properties of the page transform\<close>

lemma sanitizeString_falsy:
  "sanitizeString Null = Null" "sanitizeString Undefined = Undefined"
  "sanitizeString (Str []) = Str []"
  by (simp_all add: sanitizeString_def)

lemma customBitlinkKept_iff:
  "customBitlinkKept P ds c \<longleftrightarrow> (\<exists>u. parseURL P c = Some u \<and> hostname u \<in> set ds)"
  by (simp add: customBitlinkKept_def split: option.splits)

lemma customBitlinkLinks_Some:
  "list_all2
     (\<lambda>c e. \<exists>u. parseURL P c = Some u
        \<and> e = d \<lparr> domain := hostname u, key := Some (drop 1 (pathname u)),
                   shortLink := linkConstructorSimple P (hostname u) (Some (drop 1 (pathname u))) \<rparr>)
     (filter (\<lambda>c. \<exists>u. parseURL P c = Some u \<and> hostname u \<in> set ds) cs)
     (customBitlinkLinks P ds d (Some cs))"
proof (induction cs)
  case Nil
  then show ?case by (simp add: customBitlinkLinks_def map_filter_simps)
next
  case (Cons c cs)
  then show ?case
    by (auto simp: customBitlinkLinks_def map_filter_simps customBitlinkKept_iff
        customBitlinkLink_def Let_def)
qed

lemma customBitlinkLinks_rel:
  "list_all2
     (\<lambda>c e. \<exists>u. parseURL P c = Some u
        \<and> e = d \<lparr> domain := hostname u, key := Some (drop 1 (pathname u)),
                   shortLink := linkConstructorSimple P (hostname u) (Some (drop 1 (pathname u))) \<rparr>)
     (filter (\<lambda>c. \<exists>u. parseURL P c = Some u \<and> hostname u \<in> set ds)
        (case cbs of None \<Rightarrow> [] | Some xs \<Rightarrow> xs))
     (customBitlinkLinks P ds d cbs)"
proof (cases cbs)
  case None
  then show ?thesis by (simp add: customBitlinkLinks_def)
next
  case (Some cs)
  then show ?thesis using customBitlinkLinks_Some [of P d ds cs] by simp
qed

text \<open>
  Claim C5, as the code has it. A record passes the guards when its id and URL are truthy
  and the domain part of its id is one of the supplied domains (its sanitized URL is then
  non-empty). If moreover its \<^verbatim>\<open>created_at\<close> converts to a date, and its tags are
  present when a tag mapping is supplied, the callback returns the primary link followed
  by one entry for each custom bitlink that parses as a URL with a hostname among the
  domains, in their order: \<open>1 + M\<close> entries. Each of these entries is the primary
  link with the domain, the key (the path behind its slash) and the short link of the
  custom bitlink. The other custom bitlinks are dropped and raise nothing.
\<close>

theorem transformLink_primary_and_aliases:
  assumes "truthy (link_id l)" and "truthy (long_url l)"
    and "hd (splitString 47 (the (link_id l))) \<in> set (domains a)"
    and "toISOString P (created_at l) = Inr isoDate"
    and "tagIdsOf (tagsToId a) (tags l) = Inr tids"
    and "valid = filter (\<lambda>c. \<exists>u. parseURL P c = Some u \<and> hostname u \<in> set (domains a))
                   (case custom_bitlinks l of None \<Rightarrow> [] | Some xs \<Rightarrow> xs)"
  shows "\<exists>primary aliases.
      transformLink P a l = Inr (Emit (primary # aliases))
    \<and> length (primary # aliases) = 1 + length valid
    \<and> url primary = sanitizedUrlOf (the (long_url l))
    \<and> domain primary = hd (splitString 47 (the (link_id l)))
    \<and> list_all2
        (\<lambda>c e. \<exists>u. parseURL P c = Some u
           \<and> e = primary \<lparr> domain := hostname u, key := Some (drop 1 (pathname u)),
                shortLink := linkConstructorSimple P (hostname u) (Some (drop 1 (pathname u))) \<rparr>)
        valid aliases"
proof -
  let ?parts = "splitString 47 (the (link_id l))"
  define primary where "primary =
    \<lparr> projectId = workspaceId a, l_userId = userId a, domain = hd ?parts,
      key = (if 1 < length ?parts then Some (?parts ! 1) else None),
      url = sanitizedUrlOf (the (long_url l)),
      shortLink = linkConstructorSimple P (hd ?parts)
        (if 1 < length ?parts then Some (?parts ! 1) else None),
      title = sanitizeString (link_title l), archived = link_archived l,
      createdAt = isoDate, tagIds = tids, l_folderId = folderId a \<rparr>"
  define aliases where "aliases = customBitlinkLinks P (domains a) primary (custom_bitlinks l)"
  have nonempty: "sanitizedUrlOf (the (long_url l)) \<noteq> []"
    using assms(2) by (auto simp: truthy_def sanitizedUrlOf_doubled doubled_nonempty split: option.splits)
  have run: "transformLink P a l = Inr (Emit (primary # aliases))"
    using assms(1-5) nonempty
    by (simp add: transformLink_def Let_def primary_def aliases_def)
  have rel: "list_all2
        (\<lambda>c e. \<exists>u. parseURL P c = Some u
           \<and> e = primary \<lparr> domain := hostname u, key := Some (drop 1 (pathname u)),
                shortLink := linkConstructorSimple P (hostname u) (Some (drop 1 (pathname u))) \<rparr>)
        valid aliases"
    unfolding assms(6) aliases_def by (rule customBitlinkLinks_rel)
  then have len: "length aliases = length valid"
    by (simp add: list_all2_lengthD)
  have "url primary = sanitizedUrlOf (the (long_url l))" "domain primary = hd ?parts"
    by (simp_all add: primary_def)
  with run rel len show ?thesis by auto
qed

theorem transformLink_primary_and_aliases_witness:
  "truthy (link_id sampleLink) \<and> truthy (long_url sampleLink)
   \<and> hd (splitString 47 (the (link_id sampleLink))) \<in> set (domains sampleArgs)
   \<and> toISOString samplePlatform (created_at sampleLink) = Inr (js ''2024-01-02T03:04:05.000Z'')
   \<and> tagIdsOf (tagsToId sampleArgs) (tags sampleLink) = Inr [Some (js ''tag_1''), None]
   \<and> [js ''https://short.io/promo'']
       = filter (\<lambda>c. \<exists>u. parseURL samplePlatform c = Some u \<and> hostname u \<in> set (domains sampleArgs))
           (case custom_bitlinks sampleLink of None \<Rightarrow> [] | Some xs \<Rightarrow> xs)
   \<and> transformLink samplePlatform sampleArgs sampleLink = Inr (Emit [samplePrimary, sampleAlias])"
proof -
  have 1: "truthy (link_id sampleLink)" and 2: "truthy (long_url sampleLink)"
    by (simp_all add: sampleLink_def truthy_def js_def)
  have 3: "hd (splitString 47 (the (link_id sampleLink))) \<in> set (domains sampleArgs)"
    by (simp add: sampleLink_def sampleArgs_def js_def)
  have 4: "toISOString samplePlatform (created_at sampleLink) = Inr (js ''2024-01-02T03:04:05.000Z'')"
    by (simp add: sampleLink_def samplePlatform_def toISOString_def)
  have 5: "tagIdsOf (tagsToId sampleArgs) (tags sampleLink) = Inr [Some (js ''tag_1''), None]"
    by (simp add: sampleLink_def sampleArgs_def tagIdsOf_def js_def)
  have 6: "[js ''https://short.io/promo'']
       = filter (\<lambda>c. \<exists>u. parseURL samplePlatform c = Some u \<and> hostname u \<in> set (domains sampleArgs))
           (case custom_bitlinks sampleLink of None \<Rightarrow> [] | Some xs \<Rightarrow> xs)"
    by (simp add: sampleLink_def sampleArgs_def samplePlatform_def js_def)
  have 7: "transformLink samplePlatform sampleArgs sampleLink = Inr (Emit [samplePrimary, sampleAlias])"
    by (simp add: transformLink_def sampleLink_def sampleArgs_def samplePlatform_def
        samplePrimary_def sampleAlias_def truthy_def toISOString_def tagIdsOf_def
        sanitizedUrlOf_doubled sanitizeString_falsy customBitlinkLinks_def customBitlinkKept_def
        customBitlinkLink_def map_filter_simps truncatedEscape_def Let_def js_def)
  from transformLink_primary_and_aliases [OF 1 2 3 4 5 6] 1 2 3 4 5 6 7
  show ?thesis by simp
qed


text \<open>
  A record that passes the guards and has no \<^verbatim>\<open>created_at\<close> makes the callback raise a
  \<^verbatim>\<open>RangeError\<close>, and with it the whole \<^verbatim>\<open>flatMap\<close>, instead of producing entries;
  one that has no \<^verbatim>\<open>tags\<close> makes it raise a \<^verbatim>\<open>TypeError\<close> when a tag mapping is
  supplied.
\<close>

theorem transformLink_raises_on_invalid_date:
  "truthy (link_id (sampleLink \<lparr> created_at := None \<rparr>))
   \<and> truthy (long_url (sampleLink \<lparr> created_at := None \<rparr>))
   \<and> hd (splitString 47 (the (link_id (sampleLink \<lparr> created_at := None \<rparr>))))
       \<in> set (domains sampleArgs)
   \<and> sanitizedUrlOf (the (long_url (sampleLink \<lparr> created_at := None \<rparr>))) \<noteq> []
   \<and> transformLink samplePlatform sampleArgs (sampleLink \<lparr> created_at := None \<rparr>)
       = Inl RangeError
   \<and> flatMapLinks samplePlatform sampleArgs [sampleLink \<lparr> created_at := None \<rparr>]
       = Inl RangeError
   \<and> transformLink samplePlatform sampleArgs (sampleLink \<lparr> tags := None \<rparr>) = Inl TypeError"
  by (simp add: transformLink_def sampleLink_def sampleArgs_def samplePlatform_def truthy_def
      toISOString_def tagIdsOf_def sanitizedUrlOf_doubled truncatedEscape_def Let_def js_def)


section \<open>Properties of an invocation\<close>

lemma sample_transformLink:
  "transformLink samplePlatform sampleArgs sampleLink = Inr (Emit [samplePrimary, sampleAlias])"
    by (simp add: transformLink_def sampleLink_def sampleArgs_def samplePlatform_def
        samplePrimary_def sampleAlias_def truthy_def toISOString_def tagIdsOf_def
        sanitizedUrlOf_doubled sanitizeString_falsy customBitlinkLinks_def customBitlinkKept_def
        customBitlinkLink_def map_filter_simps truncatedEscape_def Let_def js_def)

lemma other_transformLink:
  "transformLink samplePlatform otherArgs sampleLink
     = Inr (Emit [samplePrimary \<lparr> tagIds := [Some (js ''tag_2''), None] \<rparr>,
                  sampleAlias \<lparr> tagIds := [Some (js ''tag_2''), None] \<rparr>])"
    by (simp add: transformLink_def sampleLink_def sampleArgs_def otherArgs_def samplePlatform_def
        samplePrimary_def sampleAlias_def truthy_def toISOString_def tagIdsOf_def
        sanitizedUrlOf_doubled sanitizeString_falsy customBitlinkLinks_def customBitlinkKept_def
        customBitlinkLink_def map_filter_simps truncatedEscape_def Let_def js_def)

lemma alreadyCreated_iff:
  "list_ex (\<lambda>l. l = s) (findMany table wanted) \<longleftrightarrow> s \<in> set table \<and> s \<in> set wanted"
  by (auto simp: findMany_def list_ex_iff)

lemma linksToCreate_findMany:
  "linksToCreate (findMany table (map shortLink batch)) batch
     = filter (\<lambda>l. shortLink l \<notin> set table) batch"
  unfolding linksToCreate_def
  by (rule filter_cong) (auto simp: alreadyCreated_iff)

lemma length_linksToCreate:
  "length (filter (\<lambda>l. shortLink l \<notin> set table) batch)
     = length batch - length (filter (\<lambda>l. shortLink l \<in> set table) batch)"
  using sum_length_filter_compl [of "\<lambda>l. shortLink l \<in> set table" batch] by simp

lemma bulkCreated_import:
  assumes "flatMapLinks P a (links (bitlyResponse E)) = Inr batch"
  shows "bulkCreated (fst (importLinksFromBitly P E a))
           = [filter (\<lambda>l. shortLink l \<notin> set (linkTable E)) batch]"
  using assms
  by (simp add: importLinksFromBitly_def Let_def linksToCreate_findMany finalize_def
      split: sum.splits)

lemma sample_flatMap:
  "flatMapLinks samplePlatform sampleArgs [sampleLink] = Inr [samplePrimary, sampleAlias]"
  by (simp add: sample_transformLink)

lemma sample_flatMap_twice:
  "flatMapLinks samplePlatform sampleArgs [sampleLink, sampleLink]
     = Inr [samplePrimary, sampleAlias, samplePrimary, sampleAlias]"
  by (simp add: sample_transformLink)

lemma other_flatMap:
  "flatMapLinks samplePlatform otherArgs [sampleLink]
     = Inr [samplePrimary \<lparr> tagIds := [Some (js ''tag_2''), None] \<rparr>,
            sampleAlias \<lparr> tagIds := [Some (js ''tag_2''), None] \<rparr>]"
  by (simp add: other_transformLink)

lemma sample_shortLinks:
  "shortLink samplePrimary = js ''https://short.io/abc''"
  "shortLink sampleAlias = js ''https://short.io/promo''"
  by (simp_all add: samplePrimary_def sampleAlias_def)

text \<open>
  Claim C4. For a batch of \<open>K\<close> normalized links of which \<open>J\<close> have a short link that
  is in the table, the deduplication step keeps exactly the entries whose short link is
  in no row of the table, \<open>K - J\<close> of them, and these are the one argument of the one
  bulk insert of the invocation.
\<close>

theorem dedupe_passes_exactly_the_new_links:
  "linksToCreate (findMany table (map shortLink batch)) batch
     = filter (\<lambda>l. shortLink l \<notin> set table) batch
   \<and> length (linksToCreate (findMany table (map shortLink batch)) batch)
     = length batch - length (filter (\<lambda>l. shortLink l \<in> set table) batch)
   \<and> (flatMapLinks P a (links (bitlyResponse E)) = Inr batch \<longrightarrow>
        bulkCreated (fst (importLinksFromBitly P E a))
          = [filter (\<lambda>l. shortLink l \<notin> set (linkTable E)) batch])"
  by (simp add: linksToCreate_findMany length_linksToCreate bulkCreated_import)

theorem dedupe_passes_exactly_the_new_links_witness:
  "flatMapLinks samplePlatform sampleArgs (links (bitlyResponse lastPageEnv))
     = Inr [samplePrimary, sampleAlias]
   \<and> length (filter (\<lambda>l. shortLink l \<in> set (linkTable lastPageEnv)) [samplePrimary, sampleAlias]) = 1
   \<and> bulkCreated (fst (importLinksFromBitly samplePlatform lastPageEnv sampleArgs)) = [[samplePrimary]]"
proof -
  have batch: "flatMapLinks samplePlatform sampleArgs (links (bitlyResponse lastPageEnv))
     = Inr [samplePrimary, sampleAlias]"
    by (simp add: lastPageEnv_def sample_transformLink)
  have present: "filter (\<lambda>l. shortLink l \<in> set (linkTable lastPageEnv)) [samplePrimary, sampleAlias]
     = [sampleAlias]"
    by (simp add: lastPageEnv_def sample_shortLinks js_def)
  have new: "filter (\<lambda>l. shortLink l \<notin> set (linkTable lastPageEnv)) [samplePrimary, sampleAlias]
     = [samplePrimary]"
    by (simp add: lastPageEnv_def sample_shortLinks js_def)
  from dedupe_passes_exactly_the_new_links
    [of "linkTable lastPageEnv" "[samplePrimary, sampleAlias]" samplePlatform sampleArgs lastPageEnv]
    batch present new
  show ?thesis by simp
qed

text \<open>
  Claim C9. Links are compared with the table only, never with each other: all the
  entries of a batch that share a short link which is in no row of the table are passed
  to the bulk insert, however many they are.
\<close>

theorem duplicates_within_a_batch_are_all_inserted:
  assumes "s \<notin> set table"
  shows "filter (\<lambda>l. shortLink l = s) (linksToCreate (findMany table (map shortLink batch)) batch)
           = filter (\<lambda>l. shortLink l = s) batch
       \<and> (table = linkTable E \<and> flatMapLinks P a (links (bitlyResponse E)) = Inr batch \<longrightarrow>
            (\<exists>inserted. bulkCreated (fst (importLinksFromBitly P E a)) = [inserted]
               \<and> filter (\<lambda>l. shortLink l = s) inserted = filter (\<lambda>l. shortLink l = s) batch))"
proof -
  have "filter (\<lambda>l. shortLink l = s) (filter (\<lambda>l. shortLink l \<notin> set table) batch)
          = filter (\<lambda>l. shortLink l = s) batch"
    using assms by (auto simp: filter_filter intro: filter_cong)
  then show ?thesis
    by (auto simp: linksToCreate_findMany bulkCreated_import)
qed

theorem duplicates_within_a_batch_are_all_inserted_witness:
  "js ''https://short.io/abc'' \<notin> set (linkTable lastPageEnv)
   \<and> flatMapLinks samplePlatform sampleArgs
        (links (bitlyResponse (lastPageEnv \<lparr> bitlyResponse :=
           \<lparr> links = [sampleLink, sampleLink], search_after = [] \<rparr> \<rparr>)))
       = Inr [samplePrimary, sampleAlias, samplePrimary, sampleAlias]
   \<and> filter (\<lambda>l. shortLink l = js ''https://short.io/abc'')
        [samplePrimary, sampleAlias, samplePrimary, sampleAlias] = [samplePrimary, samplePrimary]
   \<and> bulkCreated (fst (importLinksFromBitly samplePlatform
        (lastPageEnv \<lparr> bitlyResponse := \<lparr> links = [sampleLink, sampleLink], search_after = [] \<rparr> \<rparr>)
        sampleArgs)) = [[samplePrimary, samplePrimary]]"
proof -
  let ?E = "lastPageEnv \<lparr> bitlyResponse := \<lparr> links = [sampleLink, sampleLink], search_after = [] \<rparr> \<rparr>"
  let ?batch = "[samplePrimary, sampleAlias, samplePrimary, sampleAlias]"
  have absent: "js ''https://short.io/abc'' \<notin> set (linkTable lastPageEnv)"
    by (simp add: lastPageEnv_def js_def)
  have table: "linkTable lastPageEnv = linkTable ?E"
    by simp
  have batch: "flatMapLinks samplePlatform sampleArgs (links (bitlyResponse ?E)) = Inr ?batch"
    by (simp add: sample_transformLink)
  have same: "filter (\<lambda>l. shortLink l = js ''https://short.io/abc'') ?batch
     = [samplePrimary, samplePrimary]"
    by (simp add: sample_shortLinks js_def)
  have ins: "bulkCreated (fst (importLinksFromBitly samplePlatform ?E sampleArgs))
     = [[samplePrimary, samplePrimary]]"
    using bulkCreated_import [OF batch]
    by (simp add: lastPageEnv_def sample_shortLinks js_def)
  from duplicates_within_a_batch_are_all_inserted
    [OF absent, of ?batch ?E samplePlatform sampleArgs] absent batch same ins
  show ?thesis by simp
qed

lemma undated_transformLink:
  "transformLink samplePlatform sampleArgs (sampleLink \<lparr> created_at := None \<rparr>) = Inl RangeError"
  by (simp add: transformLink_def sampleLink_def sampleArgs_def truthy_def toISOString_def
      sanitizedUrlOf_doubled truncatedEscape_def Let_def js_def)

lemma import_more:
  assumes "flatMapLinks P a (links (bitlyResponse E)) = Inr batch"
    and "search_after (bitlyResponse E) \<noteq> []"
  shows "importLinksFromBitly P E a =
    ([Fetch (fetchUrl a) (js ''Bearer '' @ bitlyApiKey a),
      FindManyLinks (map shortLink batch),
      BulkCreateLinks (filter (\<lambda>l. shortLink l \<notin> set (linkTable E)) batch),
      Delay 500,
      PublishJSON (APP_DOMAIN_WITH_NGROK P @ js ''/api/cron/import/bitly'')
        (continuationOf a (search_after (bitlyResponse E)) (count a + int (length batch)))],
     Inr Published)"
  using assms by (simp add: importLinksFromBitly_def Let_def linksToCreate_findMany)

lemma import_done:
  assumes "flatMapLinks P a (links (bitlyResponse E)) = Inr batch"
    and "search_after (bitlyResponse E) = []"
    and "ownerEmailOf (workspaceRow E) = Inr ownerEmail"
  shows "importLinksFromBitly P E a =
    ([Fetch (fetchUrl a) (js ''Bearer '' @ bitlyApiKey a),
      FindManyLinks (map shortLink batch),
      BulkCreateLinks (filter (\<lambda>l. shortLink l \<notin> set (linkTable E)) batch),
      Delay 500,
      FindUniqueProject (workspaceId a) (domains a)]
       @ finalize a (workspaceRow E) ownerEmail (count a + int (length batch)),
     Inr (Returned (count a + int (length batch))))"
  using assms by (simp add: importLinksFromBitly_def Let_def linksToCreate_findMany)

lemma import_no_owner:
  assumes "flatMapLinks P a (links (bitlyResponse E)) = Inr batch"
    and "search_after (bitlyResponse E) = []"
    and "ownerEmailOf (workspaceRow E) = Inl e"
  shows "importLinksFromBitly P E a =
    ([Fetch (fetchUrl a) (js ''Bearer '' @ bitlyApiKey a),
      FindManyLinks (map shortLink batch),
      BulkCreateLinks (filter (\<lambda>l. shortLink l \<notin> set (linkTable E)) batch),
      Delay 500,
      FindUniqueProject (workspaceId a) (domains a)],
     Inl e)"
  using assms by (simp add: importLinksFromBitly_def Let_def linksToCreate_findMany)

lemma import_raises:
  assumes "flatMapLinks P a (links (bitlyResponse E)) = Inl e"
  shows "importLinksFromBitly P E a =
    ([Fetch (fetchUrl a) (js ''Bearer '' @ bitlyApiKey a)], Inl e)"
  using assms by (simp add: importLinksFromBitly_def Let_def)

text \<open>
  Claim C2, as the code has it. When the transform of the page raises no error and the
  next cursor is not empty, the invocation publishes exactly one message, to the
  continuation endpoint \<^verbatim>\<open>/api/cron/import/bitly\<close> of the application. Its body has
  the workspace, user, group, domains and folder of the request unchanged, the flag
  \<^verbatim>\<open>importTags\<close> telling whether a tag mapping was supplied, the new cursor and the new
  count. The tag mapping itself and the provider's API key are not in the message.
  Nothing is deleted and no e-mail is sent.
\<close>

theorem continuation_carries_request_without_key_and_tags:
  assumes "flatMapLinks P a (links (bitlyResponse E)) = Inr batch"
    and "search_after (bitlyResponse E) \<noteq> []"
  shows "published (fst (importLinksFromBitly P E a)) =
      [(APP_DOMAIN_WITH_NGROK P @ js ''/api/cron/import/bitly'',
        \<lparr> c_workspaceId = workspaceId a, c_userId = userId a, c_bitlyGroup = bitlyGroup a,
          c_domains = domains a, c_folderId = folderId a,
          c_importTags = (tagsToId a \<noteq> None),
          c_searchAfter = search_after (bitlyResponse E),
          c_count = count a + int (length batch) \<rparr>)]
    \<and> redisDeleted (fst (importLinksFromBitly P E a)) = []
    \<and> tagCleanups (fst (importLinksFromBitly P E a)) = []
    \<and> emailsSent (fst (importLinksFromBitly P E a)) = []
    \<and> snd (importLinksFromBitly P E a) = Inr Published"
  by (simp add: import_more [OF assms] continuationOf_def split: option.splits)

lemma morePages_batch:
  "flatMapLinks samplePlatform sampleArgs (links (bitlyResponse morePagesEnv))
     = Inr [samplePrimary, sampleAlias]"
  by (simp add: morePagesEnv_def sample_transformLink)

lemma morePages_cursor: "search_after (bitlyResponse morePagesEnv) = js ''xyz''"
  by (simp add: morePagesEnv_def)

theorem continuation_carries_request_witness:
  "flatMapLinks samplePlatform sampleArgs (links (bitlyResponse morePagesEnv))
     = Inr [samplePrimary, sampleAlias]
   \<and> search_after (bitlyResponse morePagesEnv) \<noteq> []
   \<and> published (fst (importLinksFromBitly samplePlatform morePagesEnv sampleArgs)) =
      [(js ''https://app.dub.co/api/cron/import/bitly'',
        \<lparr> c_workspaceId = js ''ws_1'', c_userId = js ''user_1'', c_bitlyGroup = js ''Bg1'',
          c_domains = [js ''short.io''], c_folderId = None, c_importTags = True,
          c_searchAfter = js ''xyz'', c_count = 12 \<rparr>)]
   \<and> snd (importLinksFromBitly samplePlatform morePagesEnv sampleArgs) = Inr Published"
proof -
  have cursor: "search_after (bitlyResponse morePagesEnv) \<noteq> []"
    by (simp add: morePages_cursor js_def)
  from continuation_carries_request_without_key_and_tags [OF morePages_batch cursor]
    morePages_batch cursor
  show ?thesis
    by (simp add: morePages_cursor sampleArgs_def samplePlatform_def js_def)
qed

text \<open>
  Two requests that differ in the API key and in the tag mapping publish the same
  message, so the message carries neither; and a page with a next cursor whose record has
  no \<^verbatim>\<open>created_at\<close> publishes nothing.
\<close>

theorem continuation_omits_key_and_tag_mapping:
  "search_after (bitlyResponse morePagesEnv) \<noteq> []
   \<and> bitlyApiKey sampleArgs \<noteq> bitlyApiKey otherArgs
   \<and> tagsToId sampleArgs \<noteq> tagsToId otherArgs
   \<and> published (fst (importLinksFromBitly samplePlatform morePagesEnv sampleArgs))
       = published (fst (importLinksFromBitly samplePlatform morePagesEnv otherArgs))
   \<and> published (fst (importLinksFromBitly samplePlatform
        (morePagesEnv \<lparr> bitlyResponse :=
           \<lparr> links = [sampleLink \<lparr> created_at := None \<rparr>], search_after = js ''xyz'' \<rparr> \<rparr>)
        sampleArgs)) = []"
proof -
  have cursor: "search_after (bitlyResponse morePagesEnv) \<noteq> []"
    by (simp add: morePages_cursor js_def)
  have other: "flatMapLinks samplePlatform otherArgs (links (bitlyResponse morePagesEnv))
     = Inr [samplePrimary \<lparr> tagIds := [Some (js ''tag_2''), None] \<rparr>,
            sampleAlias \<lparr> tagIds := [Some (js ''tag_2''), None] \<rparr>]"
    by (simp add: morePagesEnv_def other_transformLink)
  have differ: "bitlyApiKey sampleArgs \<noteq> bitlyApiKey otherArgs"
    "tagsToId sampleArgs \<noteq> tagsToId otherArgs"
    by (simp_all add: sampleArgs_def otherArgs_def js_def)
  have same: "published (fst (importLinksFromBitly samplePlatform morePagesEnv sampleArgs))
       = published (fst (importLinksFromBitly samplePlatform morePagesEnv otherArgs))"
    unfolding import_more [OF morePages_batch cursor] import_more [OF other cursor]
    by (simp add: continuationOf_def sampleArgs_def otherArgs_def)
  have raises: "flatMapLinks samplePlatform sampleArgs
      (links (bitlyResponse (morePagesEnv \<lparr> bitlyResponse :=
           \<lparr> links = [sampleLink \<lparr> created_at := None \<rparr>], search_after = js ''xyz'' \<rparr> \<rparr>)))
     = Inl RangeError"
    by (simp add: undated_transformLink)
  show ?thesis
    using cursor differ same by (simp add: import_raises [OF raises])
qed

text \<open>
  Claim C6, as the code has it. When the transform of the page raises no error, the next
  cursor is the empty string and the workspace lookup does not return a workspace without
  an owner, the invocation deletes exactly the two keys \<^verbatim>\<open>import:bitly:{workspaceId}\<close>
  and \<^verbatim>\<open>import:bitly:{workspaceId}:tags\<close>, deletes the tags of the workspace that
  have no link, sends one e-mail with the cumulative count and the domain list, addressed
  to the first owner of the workspace (to the empty address when that owner has no
  address or no workspace was found), publishes nothing and returns the cumulative
  count.
\<close>

theorem finalization_on_empty_cursor:
  assumes "flatMapLinks P a (links (bitlyResponse E)) = Inr batch"
    and "search_after (bitlyResponse E) = []"
    and "ownerEmailOf (workspaceRow E) = Inr ownerEmail"
  shows "redisDeleted (fst (importLinksFromBitly P E a)) =
      [js ''import:bitly:'' @ workspaceId a, js ''import:bitly:'' @ workspaceId a @ js '':tags'']
    \<and> tagCleanups (fst (importLinksFromBitly P E a)) = [workspaceId a]
    \<and> (\<exists>m. emailsSent (fst (importLinksFromBitly P E a)) = [m]
          \<and> e_email m = ownerEmail
          \<and> e_count m = count a + int (length batch)
          \<and> e_domains m = domains a)
    \<and> published (fst (importLinksFromBitly P E a)) = []
    \<and> snd (importLinksFromBitly P E a) = Inr (Returned (count a + int (length batch)))
    \<and> (\<forall>w u us. workspaceRow E = Some w \<and> ws_users w = Some u # us \<longrightarrow> ownerEmail = u)
    \<and> (\<forall>w us. workspaceRow E = Some w \<and> ws_users w = None # us \<longrightarrow> ownerEmail = [])
    \<and> (workspaceRow E = None \<longrightarrow> ownerEmail = [])"
  using assms(3)
  by (auto simp: import_done [OF assms] finalize_def ownerEmailOf_def)

lemma lastPage_batch:
  "flatMapLinks samplePlatform sampleArgs (links (bitlyResponse lastPageEnv))
     = Inr [samplePrimary, sampleAlias]"
  by (simp add: lastPageEnv_def sample_transformLink)

theorem finalization_on_empty_cursor_witness:
  "flatMapLinks samplePlatform sampleArgs (links (bitlyResponse lastPageEnv))
     = Inr [samplePrimary, sampleAlias]
   \<and> search_after (bitlyResponse lastPageEnv) = []
   \<and> ownerEmailOf (workspaceRow lastPageEnv) = Inr (js ''owner@acme.com'')
   \<and> redisDeleted (fst (importLinksFromBitly samplePlatform lastPageEnv sampleArgs)) =
      [js ''import:bitly:ws_1'', js ''import:bitly:ws_1:tags'']
   \<and> tagCleanups (fst (importLinksFromBitly samplePlatform lastPageEnv sampleArgs)) = [js ''ws_1'']
   \<and> snd (importLinksFromBitly samplePlatform lastPageEnv sampleArgs) = Inr (Returned 12)"
proof -
  have cursor: "search_after (bitlyResponse lastPageEnv) = []"
    by (simp add: lastPageEnv_def)
  have owner: "ownerEmailOf (workspaceRow lastPageEnv) = Inr (js ''owner@acme.com'')"
    by (simp add: lastPageEnv_def sampleWorkspace_def ownerEmailOf_def)
  from finalization_on_empty_cursor [OF lastPage_batch cursor owner] lastPage_batch cursor owner
  show ?thesis
    by (simp add: sampleArgs_def js_def)
qed

text \<open>
  On a last page, a workspace without an owner ends the invocation with a
  \<^verbatim>\<open>TypeError\<close> before anything is deleted or sent; a record without
  \<^verbatim>\<open>created_at\<close> ends it with a \<^verbatim>\<open>RangeError\<close> right after the request to the
  provider.
\<close>

theorem finalization_skipped_when_an_error_is_raised:
  "search_after (bitlyResponse (lastPageEnv
       \<lparr> workspaceRow := Some (sampleWorkspace \<lparr> ws_users := [] \<rparr>) \<rparr>)) = []
   \<and> snd (importLinksFromBitly samplePlatform
        (lastPageEnv \<lparr> workspaceRow := Some (sampleWorkspace \<lparr> ws_users := [] \<rparr>) \<rparr>)
        sampleArgs) = Inl TypeError
   \<and> redisDeleted (fst (importLinksFromBitly samplePlatform
        (lastPageEnv \<lparr> workspaceRow := Some (sampleWorkspace \<lparr> ws_users := [] \<rparr>) \<rparr>)
        sampleArgs)) = []
   \<and> emailsSent (fst (importLinksFromBitly samplePlatform
        (lastPageEnv \<lparr> workspaceRow := Some (sampleWorkspace \<lparr> ws_users := [] \<rparr>) \<rparr>)
        sampleArgs)) = []
   \<and> search_after (bitlyResponse (lastPageEnv \<lparr> bitlyResponse :=
        \<lparr> links = [sampleLink \<lparr> created_at := None \<rparr>], search_after = [] \<rparr> \<rparr>)) = []
   \<and> importLinksFromBitly samplePlatform
        (lastPageEnv \<lparr> bitlyResponse :=
           \<lparr> links = [sampleLink \<lparr> created_at := None \<rparr>], search_after = [] \<rparr> \<rparr>)
        sampleArgs
       = ([Fetch (js ''https://api-ssl.bitly.com/v4/groups/Bg1/bitlinks?size=100'')
             (js ''Bearer secret'')], Inl RangeError)"
proof -
  let ?E = "lastPageEnv \<lparr> workspaceRow := Some (sampleWorkspace \<lparr> ws_users := [] \<rparr>) \<rparr>"
  let ?E' = "lastPageEnv \<lparr> bitlyResponse :=
        \<lparr> links = [sampleLink \<lparr> created_at := None \<rparr>], search_after = [] \<rparr> \<rparr>"
  have batch: "flatMapLinks samplePlatform sampleArgs (links (bitlyResponse ?E))
     = Inr [samplePrimary, sampleAlias]"
    by (simp add: lastPageEnv_def sample_transformLink)
  have cursor: "search_after (bitlyResponse ?E) = []"
    by (simp add: lastPageEnv_def)
  have owner: "ownerEmailOf (workspaceRow ?E) = Inl TypeError"
    by (simp add: ownerEmailOf_def)
  have raises: "flatMapLinks samplePlatform sampleArgs (links (bitlyResponse ?E')) = Inl RangeError"
    by (simp add: undated_transformLink)
  have request: "fetchUrl sampleArgs = js ''https://api-ssl.bitly.com/v4/groups/Bg1/bitlinks?size=100''"
    "js ''Bearer '' @ bitlyApiKey sampleArgs = js ''Bearer secret''"
    by (simp_all add: fetchUrl_def sampleArgs_def truthy_def js_def)
  show ?thesis
    using cursor request
    by (simp add: import_no_owner [OF batch cursor owner] import_raises [OF raises])
qed

text \<open>
  Claim C8. The count goes up by the number of links the transform produced, whether or
  not they were inserted: this is the count that is returned, that every e-mail reports
  and that every continuation message carries. The bulk insert receives at most that many
  links, and fewer as soon as one produced link has its short link in the table, so the
  reported count can exceed the number of records inserted.
\<close>

theorem count_grows_by_links_produced:
  assumes "flatMapLinks P a (links (bitlyResponse E)) = Inr batch"
  shows "(\<forall>c. snd (importLinksFromBitly P E a) = Inr (Returned c) \<longrightarrow>
            c = count a + int (length batch))
    \<and> (\<forall>m \<in> set (emailsSent (fst (importLinksFromBitly P E a))).
          e_count m = count a + int (length batch))
    \<and> (\<forall>b \<in> set (published (fst (importLinksFromBitly P E a))).
          c_count (snd b) = count a + int (length batch))
    \<and> (\<exists>inserted. bulkCreated (fst (importLinksFromBitly P E a)) = [inserted]
          \<and> length inserted \<le> length batch
          \<and> ((\<exists>l \<in> set batch. shortLink l \<in> set (linkTable E)) \<longrightarrow>
               length inserted < length batch))"
proof -
  have len: "length (filter (\<lambda>l. shortLink l \<notin> set (linkTable E)) batch) \<le> length batch"
    by simp
  have less: "length (filter (\<lambda>l. shortLink l \<notin> set (linkTable E)) batch) < length batch"
    if "\<exists>l \<in> set batch. shortLink l \<in> set (linkTable E)"
    using that by (auto intro: length_filter_less)
  show ?thesis
  proof (cases "search_after (bitlyResponse E) = []")
    case False
    show ?thesis
      using len less
      by (simp add: import_more [OF assms False] continuationOf_def)
  next
    case True
    show ?thesis
    proof (cases "ownerEmailOf (workspaceRow E)")
      case (Inl e)
      show ?thesis
        using len less by (simp add: import_no_owner [OF assms True Inl])
    next
      case (Inr ownerEmail)
      show ?thesis
        using len less by (simp add: import_done [OF assms True Inr] finalize_def)
    qed
  qed
qed

theorem count_grows_by_links_produced_witness:
  "flatMapLinks samplePlatform (sampleArgs \<lparr> count := 0 \<rparr>) (links (bitlyResponse lastPageEnv))
     = Inr [samplePrimary, sampleAlias]
   \<and> shortLink sampleAlias \<in> set (linkTable lastPageEnv)
   \<and> snd (importLinksFromBitly samplePlatform lastPageEnv (sampleArgs \<lparr> count := 0 \<rparr>))
       = Inr (Returned 2)
   \<and> map e_count (emailsSent (fst (importLinksFromBitly samplePlatform lastPageEnv
        (sampleArgs \<lparr> count := 0 \<rparr>)))) = [2]
   \<and> bulkCreated (fst (importLinksFromBitly samplePlatform lastPageEnv
        (sampleArgs \<lparr> count := 0 \<rparr>))) = [[samplePrimary]]"
proof -
  let ?a = "sampleArgs \<lparr> count := 0 \<rparr>"
  have "transformLink samplePlatform ?a sampleLink = Inr (Emit [samplePrimary, sampleAlias])"
    by (simp add: transformLink_def sampleLink_def sampleArgs_def samplePlatform_def
        samplePrimary_def sampleAlias_def truthy_def toISOString_def tagIdsOf_def
        sanitizedUrlOf_doubled sanitizeString_falsy customBitlinkLinks_def customBitlinkKept_def
        customBitlinkLink_def map_filter_simps truncatedEscape_def Let_def js_def)
  then have batch: "flatMapLinks samplePlatform ?a (links (bitlyResponse lastPageEnv))
     = Inr [samplePrimary, sampleAlias]"
    by (simp add: lastPageEnv_def)
  have cursor: "search_after (bitlyResponse lastPageEnv) = []"
    by (simp add: lastPageEnv_def)
  have owner: "ownerEmailOf (workspaceRow lastPageEnv) = Inr (js ''owner@acme.com'')"
    by (simp add: lastPageEnv_def sampleWorkspace_def ownerEmailOf_def)
  have present: "shortLink sampleAlias \<in> set (linkTable lastPageEnv)"
    by (simp add: lastPageEnv_def sample_shortLinks)
  have run: "snd (importLinksFromBitly samplePlatform lastPageEnv ?a) = Inr (Returned 2)"
    "map e_count (emailsSent (fst (importLinksFromBitly samplePlatform lastPageEnv ?a))) = [2]"
    "bulkCreated (fst (importLinksFromBitly samplePlatform lastPageEnv ?a)) = [[samplePrimary]]"
    unfolding import_done [OF batch cursor owner]
    by (simp_all add: finalize_def lastPageEnv_def sample_shortLinks js_def)
  from count_grows_by_links_produced [OF batch] batch present run
  show ?thesis by simp
qed


section \<open>Properties of the sale schemas\<close>

lemma parseShape_accepts:
  "(\<exists>out. parseShape sh kvs = Some out)
     \<longleftrightarrow> list_all (\<lambda>kp. \<exists>v. snd kp (field kvs (fst kp)) = Some v) sh"
  by (induction sh) (auto split: option.splits)

lemma z_object_accepts:
  "(\<exists>out. z_object sh (JObject kvs) = Some out)
     \<longleftrightarrow> list_all (\<lambda>kp. \<exists>v. snd kp (field kvs (fst kp)) = Some v) sh"
  using parseShape_accepts [of sh kvs] by (auto simp: z_object_def)

lemma customerId_accepts:
  "(\<exists>out. z_string [Trim, MinLength 1, MaxLength 100] v = Some out)
     \<longleftrightarrow> (\<exists>s. v = JString s \<and> trim s \<noteq> [] \<and> length (trim s) \<le> 100)"
  by (cases v) (auto simp: z_string_def)

lemma amount_accepts:
  "(\<exists>out. z_number [IsInt, Positive] v = Some out)
     \<longleftrightarrow> (\<exists>n::int. 0 < n \<and> v = JNumber (Finite (of_int n)))"
proof (cases v)
  case (JNumber x)
  show ?thesis
  proof (cases x)
    case (Finite r)
    have "of_int \<lfloor>r\<rfloor> = r \<and> 0 < r \<longleftrightarrow> (\<exists>n::int. 0 < n \<and> r = of_int n)"
      by (metis of_int_floor_cancel of_int_0_less_iff)
    then show ?thesis by (simp add: JNumber Finite z_number_def)
  qed (simp_all add: JNumber z_number_def)
qed (simp_all add: z_number_def)

lemma paymentProcessor_accepts:
  "(\<exists>out. z_enum [js ''stripe'', js ''shopify'', js ''paddle''] v = Some out)
     \<longleftrightarrow> v \<in> {JString (js ''stripe''), JString (js ''shopify''), JString (js ''paddle'')}"
  by (cases v) (auto simp: z_enum_def)

lemma eventName_accepts:
  "(\<exists>out. z_default (z_optional (z_string [MaxLength 50])) (JString (js ''Purchase'')) v = Some out)
     \<longleftrightarrow> v = JUndefined \<or> (\<exists>s. v = JString s \<and> length s \<le> 50)"
  by (cases v) (auto simp: z_default_def z_optional_def z_string_def js_def)

lemma invoiceId_accepts:
  "(\<exists>out. z_default (z_nullish (z_string [])) JNull v = Some out)
     \<longleftrightarrow> v = JUndefined \<or> v = JNull \<or> (\<exists>s. v = JString s)"
  by (cases v) (auto simp: z_default_def z_nullish_def z_optional_def z_nullable_def z_string_def)

lemma currency_accepts:
  "(\<exists>out. z_default (z_string []) (JString (js ''usd'')) v = Some out)
     \<longleftrightarrow> v = JUndefined \<or> (\<exists>s. v = JString s)"
  by (cases v) (auto simp: z_default_def z_string_def)

lemma recordValues_unknown: "recordValues z_unknown kvs = Some kvs"
  by (induction kvs) (auto simp: z_unknown_def)

lemma metadata_accepts:
  "(\<exists>out. z_default (z_nullish (z_record z_unknown)) JNull v = Some out)
     \<longleftrightarrow> v = JUndefined \<or> v = JNull \<or> (\<exists>m. v = JObject m)"
  by (cases v)
     (auto simp: z_default_def z_nullish_def z_optional_def z_nullable_def z_record_def
        recordValues_unknown)

lemma trackSaleRequestSchema_accepts:
  "(\<exists>out. trackSaleRequestSchema (JObject kvs) = Some out) \<longleftrightarrow>
     (\<exists>s. field kvs (js ''customerId'') = JString s \<and> trim s \<noteq> [] \<and> length (trim s) \<le> 100)
   \<and> (\<exists>n::int. 0 < n \<and> field kvs (js ''amount'') = JNumber (Finite (of_int n)))
   \<and> field kvs (js ''paymentProcessor'')
        \<in> {JString (js ''stripe''), JString (js ''shopify''), JString (js ''paddle'')}
   \<and> (field kvs (js ''eventName'') = JUndefined
        \<or> (\<exists>s. field kvs (js ''eventName'') = JString s \<and> length s \<le> 50))
   \<and> (field kvs (js ''invoiceId'') = JUndefined \<or> field kvs (js ''invoiceId'') = JNull
        \<or> (\<exists>s. field kvs (js ''invoiceId'') = JString s))
   \<and> (field kvs (js ''currency'') = JUndefined
        \<or> (\<exists>s. field kvs (js ''currency'') = JString s))
   \<and> (field kvs (js ''metadata'') = JUndefined \<or> field kvs (js ''metadata'') = JNull
        \<or> (\<exists>m. field kvs (js ''metadata'') = JObject m))"
  unfolding trackSaleRequestSchema_def z_object_accepts trackSaleRequestShape_def
  by (simp only: list.pred_inject fst_conv snd_conv customerId_accepts amount_accepts
      paymentProcessor_accepts eventName_accepts invoiceId_accepts currency_accepts
      metadata_accepts simp_thms)

lemma trackSaleRequestSchema_defaults:
  assumes "field kvs (js ''customerId'') = JString s" and "trim s \<noteq> []"
    and "length (trim s) \<le> 100"
    and "0 < n" and "field kvs (js ''amount'') = JNumber (Finite (of_int n))"
    and "field kvs (js ''paymentProcessor'') = JString p"
    and "p \<in> {js ''stripe'', js ''shopify'', js ''paddle''}"
    and "field kvs (js ''eventName'') = JUndefined"
    and "field kvs (js ''invoiceId'') = JUndefined"
    and "field kvs (js ''currency'') = JUndefined"
    and "field kvs (js ''metadata'') = JUndefined"
  shows "trackSaleRequestSchema (JObject kvs) =
     Some (JObject
       [ (js ''customerId'', JString (trim s)),
         (js ''amount'', JNumber (Finite (of_int n))),
         (js ''paymentProcessor'', JString p),
         (js ''eventName'', JString (js ''Purchase'')),
         (js ''invoiceId'', JNull),
         (js ''currency'', JString (js ''usd'')),
         (js ''metadata'', JNull) ])"
proof -
  have 1: "z_string [Trim, MinLength 1, MaxLength 100] (JString s) = Some (JString (trim s))"
    using assms(2,3) by (cases "trim s") (simp_all add: z_string_def)
  have 2: "z_number [IsInt, Positive] (JNumber (Finite (of_int n)))
      = Some (JNumber (Finite (of_int n)))"
    using assms(4) by (simp add: z_number_def)
  have 3: "z_enum [js ''stripe'', js ''shopify'', js ''paddle''] (JString p) = Some (JString p)"
    using assms(7) by (auto simp: z_enum_def)
  have 4: "z_default (z_optional (z_string [MaxLength 50])) (JString (js ''Purchase'')) JUndefined
      = Some (JString (js ''Purchase''))"
    by (simp add: z_default_def z_optional_def z_string_def js_def)
  have 5: "z_default (z_nullish (z_string [])) JNull JUndefined = Some JNull"
    by (simp add: z_default_def z_nullish_def z_optional_def z_nullable_def)
  have 6: "z_default (z_string []) (JString (js ''usd'')) JUndefined = Some (JString (js ''usd''))"
    by (simp add: z_default_def z_string_def)
  have 7: "z_default (z_nullish (z_record z_unknown)) JNull JUndefined = Some JNull"
    by (simp add: z_default_def z_nullish_def z_optional_def z_nullable_def)
  show ?thesis
    unfolding trackSaleRequestSchema_def z_object_def trackSaleRequestShape_def
    by (simp add: assms(1,5,6,8-11) 1 [unfolded One_nat_def] 2 3 4 5 6 7)
qed

text \<open>
  Claim C7, as the code has it. The request schema accepts an object exactly when its \<^verbatim>\<open>customerId\<close> is a
  string whose trimmed form is non-empty and at most 100 code units long, its
  \<^verbatim>\<open>amount\<close> is a positive integer, its \<^verbatim>\<open>paymentProcessor\<close> is one of
  \<^verbatim>\<open>stripe\<close>, \<^verbatim>\<open>shopify\<close> and \<^verbatim>\<open>paddle\<close>, and each optional field is left out or
  well-formed: \<^verbatim>\<open>eventName\<close> a string of at most 50 code units, \<^verbatim>\<open>invoiceId\<close> a
  string or \<^verbatim>\<open>null\<close>, \<^verbatim>\<open>currency\<close> a string, \<^verbatim>\<open>metadata\<close> an object or
  \<^verbatim>\<open>null\<close>. With the four optional fields left out, the three conditions on the
  required fields decide acceptance, and the parsed value has the defaults
  \<^verbatim>\<open>"Purchase"\<close>, \<^verbatim>\<open>null\<close>, \<^verbatim>\<open>"usd"\<close> and \<^verbatim>\<open>null\<close>, the trimmed customer id,
  and the amount and payment processor as given.
\<close>

theorem trackSaleRequestSchema_accepts_iff:
  "((\<exists>out. trackSaleRequestSchema (JObject kvs) = Some out) \<longleftrightarrow>
       (\<exists>s. field kvs (js ''customerId'') = JString s \<and> trim s \<noteq> [] \<and> length (trim s) \<le> 100)
     \<and> (\<exists>n::int. 0 < n \<and> field kvs (js ''amount'') = JNumber (Finite (of_int n)))
     \<and> field kvs (js ''paymentProcessor'')
          \<in> {JString (js ''stripe''), JString (js ''shopify''), JString (js ''paddle'')}
     \<and> (field kvs (js ''eventName'') = JUndefined
          \<or> (\<exists>s. field kvs (js ''eventName'') = JString s \<and> length s \<le> 50))
     \<and> (field kvs (js ''invoiceId'') = JUndefined \<or> field kvs (js ''invoiceId'') = JNull
          \<or> (\<exists>s. field kvs (js ''invoiceId'') = JString s))
     \<and> (field kvs (js ''currency'') = JUndefined
          \<or> (\<exists>s. field kvs (js ''currency'') = JString s))
     \<and> (field kvs (js ''metadata'') = JUndefined \<or> field kvs (js ''metadata'') = JNull
          \<or> (\<exists>m. field kvs (js ''metadata'') = JObject m)))
   \<and> (field kvs (js ''eventName'') = JUndefined \<and> field kvs (js ''invoiceId'') = JUndefined
        \<and> field kvs (js ''currency'') = JUndefined \<and> field kvs (js ''metadata'') = JUndefined
      \<longrightarrow>
        ((\<exists>out. trackSaleRequestSchema (JObject kvs) = Some out) \<longleftrightarrow>
           (\<exists>s. field kvs (js ''customerId'') = JString s \<and> trim s \<noteq> []
                \<and> length (trim s) \<le> 100)
         \<and> (\<exists>n::int. 0 < n \<and> field kvs (js ''amount'') = JNumber (Finite (of_int n)))
         \<and> field kvs (js ''paymentProcessor'')
              \<in> {JString (js ''stripe''), JString (js ''shopify''), JString (js ''paddle'')})
        \<and> (\<forall>out. trackSaleRequestSchema (JObject kvs) = Some out \<longrightarrow>
              (\<exists>fields. out = JObject fields
                 \<and> field fields (js ''eventName'') = JString (js ''Purchase'')
                 \<and> field fields (js ''invoiceId'') = JNull
                 \<and> field fields (js ''currency'') = JString (js ''usd'')
                 \<and> field fields (js ''metadata'') = JNull
                 \<and> field fields (js ''amount'') = field kvs (js ''amount'')
                 \<and> field fields (js ''paymentProcessor'') = field kvs (js ''paymentProcessor'')
                 \<and> (\<exists>s. field kvs (js ''customerId'') = JString s
                       \<and> field fields (js ''customerId'') = JString (trim s)))))"
proof (intro conjI impI)
  show "(\<exists>out. trackSaleRequestSchema (JObject kvs) = Some out) \<longleftrightarrow>
       (\<exists>s. field kvs (js ''customerId'') = JString s \<and> trim s \<noteq> [] \<and> length (trim s) \<le> 100)
     \<and> (\<exists>n::int. 0 < n \<and> field kvs (js ''amount'') = JNumber (Finite (of_int n)))
     \<and> field kvs (js ''paymentProcessor'')
          \<in> {JString (js ''stripe''), JString (js ''shopify''), JString (js ''paddle'')}
     \<and> (field kvs (js ''eventName'') = JUndefined
          \<or> (\<exists>s. field kvs (js ''eventName'') = JString s \<and> length s \<le> 50))
     \<and> (field kvs (js ''invoiceId'') = JUndefined \<or> field kvs (js ''invoiceId'') = JNull
          \<or> (\<exists>s. field kvs (js ''invoiceId'') = JString s))
     \<and> (field kvs (js ''currency'') = JUndefined
          \<or> (\<exists>s. field kvs (js ''currency'') = JString s))
     \<and> (field kvs (js ''metadata'') = JUndefined \<or> field kvs (js ''metadata'') = JNull
          \<or> (\<exists>m. field kvs (js ''metadata'') = JObject m))"
    by (rule trackSaleRequestSchema_accepts)
next
  assume omitted: "field kvs (js ''eventName'') = JUndefined \<and> field kvs (js ''invoiceId'') = JUndefined
        \<and> field kvs (js ''currency'') = JUndefined \<and> field kvs (js ''metadata'') = JUndefined"
  then show "(\<exists>out. trackSaleRequestSchema (JObject kvs) = Some out) \<longleftrightarrow>
           (\<exists>s. field kvs (js ''customerId'') = JString s \<and> trim s \<noteq> []
                \<and> length (trim s) \<le> 100)
         \<and> (\<exists>n::int. 0 < n \<and> field kvs (js ''amount'') = JNumber (Finite (of_int n)))
         \<and> field kvs (js ''paymentProcessor'')
              \<in> {JString (js ''stripe''), JString (js ''shopify''), JString (js ''paddle'')}"
    by (simp add: trackSaleRequestSchema_accepts)
  show "\<forall>out. trackSaleRequestSchema (JObject kvs) = Some out \<longrightarrow>
              (\<exists>fields. out = JObject fields
                 \<and> field fields (js ''eventName'') = JString (js ''Purchase'')
                 \<and> field fields (js ''invoiceId'') = JNull
                 \<and> field fields (js ''currency'') = JString (js ''usd'')
                 \<and> field fields (js ''metadata'') = JNull
                 \<and> field fields (js ''amount'') = field kvs (js ''amount'')
                 \<and> field fields (js ''paymentProcessor'') = field kvs (js ''paymentProcessor'')
                 \<and> (\<exists>s. field kvs (js ''customerId'') = JString s
                       \<and> field fields (js ''customerId'') = JString (trim s)))"
  proof (intro allI impI)
    fix out
    assume parsed: "trackSaleRequestSchema (JObject kvs) = Some out"
    then have "\<exists>out. trackSaleRequestSchema (JObject kvs) = Some out" by blast
    then obtain s n p where req:
      "field kvs (js ''customerId'') = JString s" "trim s \<noteq> []" "length (trim s) \<le> 100"
      "0 < n" "field kvs (js ''amount'') = JNumber (Finite (of_int n))"
      "field kvs (js ''paymentProcessor'') = JString p"
      "p \<in> {js ''stripe'', js ''shopify'', js ''paddle''}"
      unfolding trackSaleRequestSchema_accepts by auto
    from trackSaleRequestSchema_defaults [OF req] omitted parsed
    have "out = JObject
       [ (js ''customerId'', JString (trim s)),
         (js ''amount'', JNumber (Finite (of_int n))),
         (js ''paymentProcessor'', JString p),
         (js ''eventName'', JString (js ''Purchase'')),
         (js ''invoiceId'', JNull),
         (js ''currency'', JString (js ''usd'')),
         (js ''metadata'', JNull) ]"
      by simp
    then show "\<exists>fields. out = JObject fields
                 \<and> field fields (js ''eventName'') = JString (js ''Purchase'')
                 \<and> field fields (js ''invoiceId'') = JNull
                 \<and> field fields (js ''currency'') = JString (js ''usd'')
                 \<and> field fields (js ''metadata'') = JNull
                 \<and> field fields (js ''amount'') = field kvs (js ''amount'')
                 \<and> field fields (js ''paymentProcessor'') = field kvs (js ''paymentProcessor'')
                 \<and> (\<exists>s. field kvs (js ''customerId'') = JString s
                       \<and> field fields (js ''customerId'') = JString (trim s))"
      using req(1,5,6) by (simp add: field_def js_def)
  qed
qed

theorem trackSaleRequestSchema_accepts_witness:
  "field sampleTrackSale (js ''eventName'') = JUndefined
   \<and> field sampleTrackSale (js ''invoiceId'') = JUndefined
   \<and> field sampleTrackSale (js ''currency'') = JUndefined
   \<and> field sampleTrackSale (js ''metadata'') = JUndefined
   \<and> trim (js '' cus_1 '') = js ''cus_1''
   \<and> trackSaleRequestSchema (JObject sampleTrackSale) =
       Some (JObject
         [ (js ''customerId'', JString (js ''cus_1'')),
           (js ''amount'', JNumber (Finite 500)),
           (js ''paymentProcessor'', JString (js ''stripe'')),
           (js ''eventName'', JString (js ''Purchase'')),
           (js ''invoiceId'', JNull),
           (js ''currency'', JString (js ''usd'')),
           (js ''metadata'', JNull) ])"
proof -
  have omitted: "field sampleTrackSale (js ''eventName'') = JUndefined"
    "field sampleTrackSale (js ''invoiceId'') = JUndefined"
    "field sampleTrackSale (js ''currency'') = JUndefined"
    "field sampleTrackSale (js ''metadata'') = JUndefined"
    by (simp_all add: sampleTrackSale_def field_def js_def)
  have trimmed: "trim (js '' cus_1 '') = js ''cus_1''"
    by (simp add: trim_def isWhiteSpace_def js_def)
  have given: "field sampleTrackSale (js ''customerId'') = JString (js '' cus_1 '')"
    "field sampleTrackSale (js ''amount'') = JNumber (Finite (of_int 500))"
    "field sampleTrackSale (js ''paymentProcessor'') = JString (js ''stripe'')"
    by (simp_all add: sampleTrackSale_def field_def js_def)
  have parsed: "trackSaleRequestSchema (JObject sampleTrackSale) =
       Some (JObject
         [ (js ''customerId'', JString (trim (js '' cus_1 ''))),
           (js ''amount'', JNumber (Finite (of_int 500))),
           (js ''paymentProcessor'', JString (js ''stripe'')),
           (js ''eventName'', JString (js ''Purchase'')),
           (js ''invoiceId'', JNull),
           (js ''currency'', JString (js ''usd'')),
           (js ''metadata'', JNull) ])"
    by (rule trackSaleRequestSchema_defaults [OF given(1) _ _ _ given(2,3) _ omitted])
       (simp_all add: trimmed, simp_all add: js_def)
  from trackSaleRequestSchema_accepts_iff [of sampleTrackSale] omitted trimmed parsed
  show ?thesis by simp
qed

lemma trim_padded: "trim (97 # replicate 100 32) = [97]"
proof -
  have ws: "isWhiteSpace 32" and a: "\<not> isWhiteSpace 97"
    by (simp_all add: isWhiteSpace_def)
  have "rev (97 # replicate 100 32) = replicate 100 32 @ [97]"
    by simp
  moreover have "dropWhile isWhiteSpace (replicate 100 32 @ [97]) = [97]"
    using ws a by (subst dropWhile_append2) auto
  ultimately show ?thesis
    using a by (simp add: trim_def)
qed

text \<open>
  A customer id of 101 code units, the letter \<open>a\<close> and a hundred spaces, is accepted
  and parsed to \<open>a\<close>; the sample request is rejected once its currency is
  \<^verbatim>\<open>null\<close>, although its three required fields are as before.
\<close>

theorem trackSaleRequestSchema_trims_before_measuring:
  "length (97 # replicate 100 (32::nat)) = 101
   \<and> trackSaleRequestSchema (JObject paddedTrackSale) =
       Some (JObject
         [ (js ''customerId'', JString [97]),
           (js ''amount'', JNumber (Finite 500)),
           (js ''paymentProcessor'', JString (js ''stripe'')),
           (js ''eventName'', JString (js ''Purchase'')),
           (js ''invoiceId'', JNull),
           (js ''currency'', JString (js ''usd'')),
           (js ''metadata'', JNull) ])
   \<and> field nullCurrencyTrackSale (js ''customerId'') = JString (js '' cus_1 '')
   \<and> field nullCurrencyTrackSale (js ''amount'') = JNumber (Finite 500)
   \<and> field nullCurrencyTrackSale (js ''paymentProcessor'') = JString (js ''stripe'')
   \<and> trackSaleRequestSchema (JObject nullCurrencyTrackSale) = None"
proof -
  have given: "field paddedTrackSale (js ''customerId'') = JString (97 # replicate 100 32)"
    "field paddedTrackSale (js ''amount'') = JNumber (Finite (of_int 500))"
    "field paddedTrackSale (js ''paymentProcessor'') = JString (js ''stripe'')"
    and omitted: "field paddedTrackSale (js ''eventName'') = JUndefined"
    "field paddedTrackSale (js ''invoiceId'') = JUndefined"
    "field paddedTrackSale (js ''currency'') = JUndefined"
    "field paddedTrackSale (js ''metadata'') = JUndefined"
    by (simp_all add: paddedTrackSale_def field_def js_def)
  have padded: "trackSaleRequestSchema (JObject paddedTrackSale) =
       Some (JObject
         [ (js ''customerId'', JString (trim (97 # replicate 100 32))),
           (js ''amount'', JNumber (Finite (of_int 500))),
           (js ''paymentProcessor'', JString (js ''stripe'')),
           (js ''eventName'', JString (js ''Purchase'')),
           (js ''invoiceId'', JNull),
           (js ''currency'', JString (js ''usd'')),
           (js ''metadata'', JNull) ])"
    by (rule trackSaleRequestSchema_defaults [OF given(1) _ _ _ given(2,3) _ omitted])
       (simp_all add: trim_padded)
  have fields: "field nullCurrencyTrackSale (js ''customerId'') = JString (js '' cus_1 '')"
    "field nullCurrencyTrackSale (js ''amount'') = JNumber (Finite 500)"
    "field nullCurrencyTrackSale (js ''paymentProcessor'') = JString (js ''stripe'')"
    "field nullCurrencyTrackSale (js ''currency'') = JNull"
    by (simp_all add: nullCurrencyTrackSale_def sampleTrackSale_def field_def js_def)
  have "\<not> (\<exists>out. trackSaleRequestSchema (JObject nullCurrencyTrackSale) = Some out)"
    unfolding trackSaleRequestSchema_accepts by (simp add: fields(4))
  then have rejected: "trackSaleRequestSchema (JObject nullCurrencyTrackSale) = None"
    by simp
  show ?thesis
    using padded fields(1-3) rejected by (simp add: trim_padded)
qed


lemma merge_not_overridden:
  "k \<notin> fst ` set B \<Longrightarrow> (k, p) \<in> set (merge A B) \<longleftrightarrow> (k, p) \<in> set A"
proof -
  assume absent: "k \<notin> fst ` set B"
  then have none: "map_of B k = None"
    by (simp add: map_of_eq_None_iff)
  have "(k, p) \<notin> set B"
    using absent by (auto simp: image_iff)
  then show ?thesis
    using none by (auto simp: merge_def image_iff intro!: bexI [of _ "(k, p)"])
qed

lemma field_Cons: "field ((k', v) # kvs) k = (if k = k' then v else field kvs k)"
  by (simp add: field_def)

lemma deprecated_schemas:
  "(js ''saleAmount'', p) \<in> set (saleEventResponseShape toStr L C Cu) \<longleftrightarrow> p = z_number []"
  "(js ''invoice_id'', p) \<in> set (saleEventResponseShape toStr L C Cu) \<longleftrightarrow> p = z_string []"
  "(js ''payment_processor'', p) \<in> set (saleEventResponseShape toStr L C Cu) \<longleftrightarrow> p = z_string []"
  by (auto simp: saleEventResponseShape_def js_def)

text \<open>
  Claim C1, as the code has it. The response schema checks every key by the schema of
  that key alone. In an accepted value \<^verbatim>\<open>saleAmount\<close> is a number and \<^verbatim>\<open>invoice_id\<close>
  and \<^verbatim>\<open>payment_processor\<close> are strings, and the value stays accepted when these three
  are replaced by any other number and strings: the schema does not compare them with
  the fields of \<^verbatim>\<open>sale\<close>. (The schema of \<^verbatim>\<open>./deprecated\<close> is taken not to declare
  the three keys again.)
\<close>

theorem saleEventResponseSchema_checks_fields_independently:
  assumes "js ''saleAmount'' \<notin> fst ` set common"
    and "js ''invoice_id'' \<notin> fst ` set common"
    and "js ''payment_processor'' \<notin> fst ` set common"
    and "saleEventResponseSchema toStr L C Cu common (JObject kvs) = Some out"
  shows "(\<exists>x. x \<noteq> NaN \<and> field kvs (js ''saleAmount'') = JNumber x)
    \<and> (\<exists>s. field kvs (js ''invoice_id'') = JString s)
    \<and> (\<exists>s. field kvs (js ''payment_processor'') = JString s)
    \<and> (\<forall>x s1 s2. x \<noteq> NaN \<longrightarrow>
          (\<exists>out'. saleEventResponseSchema toStr L C Cu common
             (JObject ((js ''saleAmount'', JNumber x) # (js ''invoice_id'', JString s1)
                        # (js ''payment_processor'', JString s2) # kvs)) = Some out'))"
proof -
  let ?sh = "merge (saleEventResponseShape toStr L C Cu) common"
  have "\<exists>out. z_object ?sh (JObject kvs) = Some out"
    using assms(4) by (auto simp: saleEventResponseSchema_def)
  then have all: "\<forall>kp \<in> set ?sh. \<exists>v. snd kp (field kvs (fst kp)) = Some v"
    by (simp add: z_object_accepts list_all_iff)
  have sa: "(js ''saleAmount'', z_number []) \<in> set ?sh"
    and ii: "(js ''invoice_id'', z_string []) \<in> set ?sh"
    and pp: "(js ''payment_processor'', z_string []) \<in> set ?sh"
    using assms(1-3) by (simp_all add: merge_not_overridden deprecated_schemas)
  have t1: "\<exists>x. x \<noteq> NaN \<and> field kvs (js ''saleAmount'') = JNumber x"
    using bspec [OF all sa]
    by (cases "field kvs (js ''saleAmount'')") (auto simp: z_number_def split: if_splits)
  have t2: "\<exists>s. field kvs (js ''invoice_id'') = JString s"
    using bspec [OF all ii]
    by (cases "field kvs (js ''invoice_id'')") (auto simp: z_string_def)
  have t3: "\<exists>s. field kvs (js ''payment_processor'') = JString s"
    using bspec [OF all pp]
    by (cases "field kvs (js ''payment_processor'')") (auto simp: z_string_def)
  have indep: "\<exists>out'. saleEventResponseSchema toStr L C Cu common
             (JObject ((js ''saleAmount'', JNumber x) # (js ''invoice_id'', JString s1)
                        # (js ''payment_processor'', JString s2) # kvs)) = Some out'"
    if x: "x \<noteq> NaN" for x s1 s2
  proof -
    let ?kvs' = "(js ''saleAmount'', JNumber x) # (js ''invoice_id'', JString s1)
                        # (js ''payment_processor'', JString s2) # kvs"
    have "\<exists>v. snd kp (field ?kvs' (fst kp)) = Some v" if mem: "kp \<in> set ?sh" for kp
    proof -
      obtain k p where kp: "kp = (k, p)" by (cases kp)
      consider "k = js ''saleAmount''" | "k = js ''invoice_id''" | "k = js ''payment_processor''"
        | "k \<noteq> js ''saleAmount''" "k \<noteq> js ''invoice_id''" "k \<noteq> js ''payment_processor''"
        by blast
      then show ?thesis
      proof cases
        case 1
        then have "p = z_number []"
          using mem assms(1) by (simp add: kp merge_not_overridden deprecated_schemas)
        then show ?thesis using x by (simp add: kp 1 field_Cons z_number_def)
      next
        case 2
        then have "p = z_string []"
          using mem assms(2) by (simp add: kp merge_not_overridden deprecated_schemas)
        then show ?thesis by (simp add: kp 2 field_Cons z_string_def js_def)
      next
        case 3
        then have "p = z_string []"
          using mem assms(3) by (simp add: kp merge_not_overridden deprecated_schemas)
        then show ?thesis by (simp add: kp 3 field_Cons z_string_def js_def)
      next
        case 4
        then show ?thesis using bspec [OF all mem] by (simp add: kp field_Cons)
      qed
    qed
    then have "\<exists>out'. z_object ?sh (JObject ?kvs') = Some out'"
      by (simp add: z_object_accepts list_all_iff)
    then show ?thesis by (simp add: saleEventResponseSchema_def)
  qed
  from t1 t2 t3 indep show ?thesis by blast
qed

lemma mismatched_accepted:
  "saleEventResponseSchema sampleString z_unknown z_unknown z_unknown [] (JObject mismatchedSaleEvent)
     = Some (JObject mismatchedSaleEvent)"
  by (simp add: saleEventResponseSchema_def saleEventResponseShape_def merge_def z_object_def
      mismatchedSaleEvent_def field_def z_literal_def z_coerce_string_def z_string_def
      z_unknown_def z_number_def z_enum_def z_default_def z_nullish_def z_optional_def
      z_nullable_def pick_def trackSaleRequestShape_def map_filter_simps sampleString_def js_def)

theorem saleEventResponseSchema_independence_witness:
  "js ''saleAmount'' \<notin> fst ` set ([] :: shape)
   \<and> js ''invoice_id'' \<notin> fst ` set ([] :: shape)
   \<and> js ''payment_processor'' \<notin> fst ` set ([] :: shape)
   \<and> saleEventResponseSchema sampleString z_unknown z_unknown z_unknown []
        (JObject mismatchedSaleEvent) = Some (JObject mismatchedSaleEvent)
   \<and> (\<exists>out'. saleEventResponseSchema sampleString z_unknown z_unknown z_unknown []
          (JObject ((js ''saleAmount'', JNumber (Finite 7)) # (js ''invoice_id'', JString (js ''a''))
                     # (js ''payment_processor'', JString (js ''b'')) # mismatchedSaleEvent))
        = Some out')"
proof -
  have absent: "js ''saleAmount'' \<notin> fst ` set ([] :: shape)"
    "js ''invoice_id'' \<notin> fst ` set ([] :: shape)"
    "js ''payment_processor'' \<notin> fst ` set ([] :: shape)"
    by simp_all
  from saleEventResponseSchema_checks_fields_independently [OF absent mismatched_accepted]
    absent mismatched_accepted
  show ?thesis by simp
qed

text \<open>
  The schema accepts a response whose \<^verbatim>\<open>saleAmount\<close>, \<^verbatim>\<open>invoice_id\<close> and
  \<^verbatim>\<open>payment_processor\<close> all differ from the amount, invoice id and payment processor
  of its \<^verbatim>\<open>sale\<close>.
\<close>

theorem saleEventResponseSchema_accepts_unequal_fields:
  "saleEventResponseSchema sampleString z_unknown z_unknown z_unknown []
        (JObject mismatchedSaleEvent) = Some (JObject mismatchedSaleEvent)
   \<and> field mismatchedSaleEvent (js ''saleAmount'') = JNumber (Finite 100)
   \<and> field mismatchedSaleEvent (js ''invoice_id'') = JString (js ''inv_2'')
   \<and> field mismatchedSaleEvent (js ''payment_processor'') = JString (js ''paypal'')
   \<and> field mismatchedSaleEvent (js ''sale'') =
       JObject [ (js ''amount'', JNumber (Finite 500)),
                 (js ''invoiceId'', JString (js ''inv_1'')),
                 (js ''paymentProcessor'', JString (js ''stripe'')) ]"
  using mismatched_accepted
  by (simp add: mismatchedSaleEvent_def field_def js_def)


end
